theory Spec2Isabelle
  imports Main "HOL-Library.Multiset"
begin

section \<open>Student record service (server.js)\<close>

text \<open>
  The service of \<^verbatim>\<open>server.js\<close> is five Express handlers over one Mongoose model,
  \<^verbatim>\<open>Student\<close>. The handlers are embedded as functions from the request and the
  collection to the response and the collection afterwards. What the handlers call on
  the model (\<^verbatim>\<open>findOne\<close>, \<^verbatim>\<open>save\<close>, \<^verbatim>\<open>findByIdAndUpdate\<close>, ...) is embedded from
  the options that \<^verbatim>\<open>studentSchema\<close> declares: \<^verbatim>\<open>trim\<close>, \<^verbatim>\<open>lowercase\<close>,
  \<^verbatim>\<open>required\<close>, \<^verbatim>\<open>unique\<close>, \<^verbatim>\<open>validate\<close> and \<^verbatim>\<open>timestamps\<close>.

  Scope of the model:
  \<^item> Mongoose (version 5 and later) casts a query filter and an update by the schema, so
    the setters of a path (\<^verbatim>\<open>trim\<close>, \<^verbatim>\<open>lowercase\<close>) run on them as they do on a new
    document; validation comes before the write, and update validators before the update;
  \<^item> \<^verbatim>\<open>req.body\<close> is a parsed JSON object or is \<^verbatim>\<open>undefined\<close> (\<open>None\<close>), as Express 5
    leaves it when the request carries no JSON body (Express 4 puts the empty object
    there); destructuring \<^verbatim>\<open>undefined\<close> throws a \<^verbatim>\<open>TypeError\<close> inside the \<^verbatim>\<open>try\<close>;
  \<^item> a field of a parsed body is a JSON string or is absent (\<open>None\<close>); numbers,
    booleans, objects and arrays as field values are not modelled;
  \<^item> a string is a list of code units below 256;
  \<^item> the collection is always reachable and its indexes are built, requests run one
    after the other;
  \<^item> the clock reading (\<^verbatim>\<open>new Date()\<close>) and the identifier of a new document
    (\<^verbatim>\<open>new ObjectId()\<close>) are inputs of the handlers that use them;
  \<^item> the version key \<^verbatim>\<open>__v\<close> of a document is left out.
\<close>

subsection \<open>Strings: trim, toLowerCase, \<^verbatim>\<open>\w\<close>\<close>

definition isWhiteSpace :: "char \<Rightarrow> bool" where
  \<comment> \<open>what \<^verbatim>\<open>String.prototype.trim\<close> strips, below 256: TAB, LF, VT, FF, CR, SP, NBSP\<close>
  "isWhiteSpace c = (let n = (of_char c :: nat) in (9 \<le> n \<and> n \<le> 13) \<or> n = 32 \<or> n = 160)"

definition trim :: "string \<Rightarrow> string" where
  "trim s = rev (dropWhile isWhiteSpace (rev (dropWhile isWhiteSpace s)))"

definition isUpper :: "char \<Rightarrow> bool" where
  \<comment> \<open>the code units below 256 that \<^verbatim>\<open>toLowerCase\<close> changes: A-Z and the Latin-1
      capitals U+00C0..U+00DE without the multiplication sign U+00D7\<close>
  "isUpper c = (let n = (of_char c :: nat) in
     (65 \<le> n \<and> n \<le> 90) \<or> (192 \<le> n \<and> n \<le> 222 \<and> n \<noteq> 215))"

definition lowerChar :: "char \<Rightarrow> char" where
  "lowerChar c = (if isUpper c then char_of ((of_char c :: nat) + 32) else c)"

definition toLowerCase :: "string \<Rightarrow> string" where
  "toLowerCase s = map lowerChar s"

definition isWordChar :: "char \<Rightarrow> bool" where
  \<comment> \<open>\<^verbatim>\<open>\w\<close> is \<^verbatim>\<open>[A-Za-z0-9_]\<close>\<close>
  "isWordChar c = (let n = (of_char c :: nat) in
     (48 \<le> n \<and> n \<le> 57) \<or> (65 \<le> n \<and> n \<le> 90) \<or> n = 95 \<or> (97 \<le> n \<and> n \<le> 122))"

definition isHexDigit :: "char \<Rightarrow> bool" where
  "isHexDigit c = (let n = (of_char c :: nat) in
     (48 \<le> n \<and> n \<le> 57) \<or> (65 \<le> n \<and> n \<le> 70) \<or> (97 \<le> n \<and> n \<le> 102))"

subsection \<open>Regular expressions, matched by derivatives\<close>

datatype rexp =
    Zero
  | One
  | Sym "char \<Rightarrow> bool"
  | Alt rexp rexp
  | Seq rexp rexp
  | Star rexp

fun nullable :: "rexp \<Rightarrow> bool" where
  "nullable Zero = False"
| "nullable One = True"
| "nullable (Sym p) = False"
| "nullable (Alt r s) = (nullable r \<or> nullable s)"
| "nullable (Seq r s) = (nullable r \<and> nullable s)"
| "nullable (Star r) = True"

fun deriv :: "char \<Rightarrow> rexp \<Rightarrow> rexp" where
  "deriv c Zero = Zero"
| "deriv c One = Zero"
| "deriv c (Sym p) = (if p c then One else Zero)"
| "deriv c (Alt r s) = Alt (deriv c r) (deriv c s)"
| "deriv c (Seq r s) =
     (if nullable r then Alt (Seq (deriv c r) s) (deriv c s) else Seq (deriv c r) s)"
| "deriv c (Star r) = Seq (deriv c r) (Star r)"

fun matches :: "rexp \<Rightarrow> string \<Rightarrow> bool" where
  \<comment> \<open>\<^verbatim>\<open>/^r$/.test(s)\<close>: the whole of \<open>s\<close> is in the language of \<open>r\<close>\<close>
  "matches r [] = nullable r"
| "matches r (c # cs) = matches (deriv c r) cs"

definition Plus :: "rexp \<Rightarrow> rexp" where
  "Plus r = Seq r (Star r)"

definition Opt :: "rexp \<Rightarrow> rexp" where
  "Opt r = Alt r One"

definition emailRegex :: rexp where
  \<comment> \<open>\<^verbatim>\<open>/^\w+([.-]?\w+)*@\w+([.-]?\w+)*(\.\w{2,3})+$/\<close>\<close>
  "emailRegex =
     (let w = Sym isWordChar;
          sep = Sym (\<lambda>c. c = CHR ''.'' \<or> c = CHR ''-'');
          words = Seq (Plus w) (Star (Seq (Opt sep) (Plus w)))
      in Seq words (Seq (Sym (\<lambda>c. c = CHR ''@''))
           (Seq words (Plus (Seq (Sym (\<lambda>c. c = CHR ''.'')) (Seq w (Seq w (Opt w))))))))"

definition validator :: "string \<Rightarrow> bool" where
  \<comment> \<open>\<^verbatim>\<open>studentSchema.email.validate.validator\<close>\<close>
  "validator v = matches emailRegex v"

subsection \<open>Documents, request bodies, responses\<close>

type_synonym objectId = string

record student =
  sid :: objectId
  name :: string
  address :: string
  city :: string
  state :: string
  email :: string
  phone :: string
  createdAt :: int
  updatedAt :: int

text \<open>The collection, in insertion order.\<close>

type_synonym store = "student list"

record body =
  body_name :: "string option"
  body_address :: "string option"
  body_city :: "string option"
  body_state :: "string option"
  body_email :: "string option"
  body_phone :: "string option"

datatype failure =
    ValidationError "string list"
  | DuplicateKey
  | CastError string
  | TypeError

fun code :: "failure \<Rightarrow> nat option" where
  \<comment> \<open>\<^verbatim>\<open>error.code\<close>: only the server's duplicate-key error E11000 carries one\<close>
  "code DuplicateKey = Some 11000"
| "code _ = None"

datatype json =
    Message string
  | MessageError string failure
  | Doc student
  | Docs "student list"

datatype response = Response nat json

subsection \<open>The schema: setters and validators\<close>

definition falsy :: "string option \<Rightarrow> bool" where
  \<comment> \<open>\<^verbatim>\<open>!v\<close> for an absent field or a string\<close>
  "falsy v = (case v of None \<Rightarrow> True | Some s \<Rightarrow> s = [])"

definition missing :: "body \<Rightarrow> bool" where
  \<comment> \<open>\<^verbatim>\<open>!name || !address || !city || !state || !email || !phone\<close>\<close>
  "missing b = (falsy (body_name b) \<or> falsy (body_address b) \<or> falsy (body_city b) \<or>
     falsy (body_state b) \<or> falsy (body_email b) \<or> falsy (body_phone b))"

definition normalizeEmail :: "string \<Rightarrow> string" where
  \<comment> \<open>the setters of \<^verbatim>\<open>email\<close>: \<^verbatim>\<open>trim\<close>, then \<^verbatim>\<open>lowercase\<close>\<close>
  "normalizeEmail s = toLowerCase (trim s)"

definition applySetters :: "body \<Rightarrow> body" where
  \<comment> \<open>casting by the schema: every path is trimmed, \<^verbatim>\<open>email\<close> is lowercased too\<close>
  "applySetters b = \<lparr>
     body_name = map_option trim (body_name b),
     body_address = map_option trim (body_address b),
     body_city = map_option trim (body_city b),
     body_state = map_option trim (body_state b),
     body_email = map_option normalizeEmail (body_email b),
     body_phone = map_option trim (body_phone b) \<rparr>"

definition requiredOk :: "string option \<Rightarrow> bool" where
  \<comment> \<open>\<^verbatim>\<open>required: true\<close> on a String path: a string of positive length\<close>
  "requiredOk v = (case v of None \<Rightarrow> False | Some s \<Rightarrow> s \<noteq> [])"

definition emailOk :: "string option \<Rightarrow> bool" where
  \<comment> \<open>\<^verbatim>\<open>required\<close> and the custom validator of \<^verbatim>\<open>email\<close>\<close>
  "emailOk v = (case v of None \<Rightarrow> False | Some s \<Rightarrow> s \<noteq> [] \<and> validator s)"

definition failingPaths :: "body \<Rightarrow> string list" where
  \<comment> \<open>the paths of the cast document that fail a validator, in schema order\<close>
  "failingPaths d =
     (if requiredOk (body_name d) then [] else [''name'']) @
     (if requiredOk (body_address d) then [] else [''address'']) @
     (if requiredOk (body_city d) then [] else [''city'']) @
     (if requiredOk (body_state d) then [] else [''state'']) @
     (if emailOk (body_email d) then [] else [''email'']) @
     (if requiredOk (body_phone d) then [] else [''phone''])"

definition validate :: "body \<Rightarrow> failure option" where
  "validate d = (if failingPaths d = [] then None else Some (ValidationError (failingPaths d)))"

definition castObjectId :: "string \<Rightarrow> objectId option" where
  \<comment> \<open>a path parameter is an identifier when it is 24 hexadecimal digits; the
      identifier is kept in lower case\<close>
  "castObjectId s =
     (if length s = 24 \<and> list_all isHexDigit s then Some (toLowerCase s) else None)"

subsection \<open>The model \<^verbatim>\<open>Student\<close>\<close>

definition findById :: "objectId \<Rightarrow> store \<Rightarrow> student option" where
  "findById i st = List.find (\<lambda>d. sid d = i) st"

definition findOne_email :: "string \<Rightarrow> store \<Rightarrow> student option" where
  \<comment> \<open>\<^verbatim>\<open>Student.findOne({ email })\<close>: the filter is cast by the schema, so the setters
      of \<^verbatim>\<open>email\<close> run on it\<close>
  "findOne_email e st = List.find (\<lambda>d. email d = normalizeEmail e) st"

definition findOne_email_ne :: "string \<Rightarrow> string \<Rightarrow> store \<Rightarrow> failure + student option" where
  \<comment> \<open>\<^verbatim>\<open>Student.findOne({ email, _id: { $ne: req.params.id } })\<close>: casting the filter
      fails on a malformed identifier\<close>
  "findOne_email_ne e p st =
     (case castObjectId p of
        None \<Rightarrow> Inl (CastError p)
      | Some i \<Rightarrow> Inr (List.find (\<lambda>d. email d = normalizeEmail e \<and> sid d \<noteq> i) st))"

definition newStudent :: "int \<Rightarrow> objectId \<Rightarrow> body \<Rightarrow> student" where
  \<comment> \<open>the document of a validated cast body (every path is present), with its
      identifier and timestamps\<close>
  "newStudent now i d = \<lparr>
     sid = i,
     name = the (body_name d),
     address = the (body_address d),
     city = the (body_city d),
     state = the (body_state d),
     email = the (body_email d),
     phone = the (body_phone d),
     createdAt = now,
     updatedAt = now \<rparr>"

definition save :: "int \<Rightarrow> objectId \<Rightarrow> body \<Rightarrow> store \<Rightarrow> failure + (student \<times> store)" where
  \<comment> \<open>\<^verbatim>\<open>new Student({...}).save()\<close>: cast, validate, then insert under the unique
      indexes on \<^verbatim>\<open>_id\<close> and \<^verbatim>\<open>email\<close>\<close>
  "save now i b st =
     (let d = applySetters b in
      case validate d of
        Some e \<Rightarrow> Inl e
      | None \<Rightarrow>
          let doc = newStudent now i d in
          if (\<exists>x \<in> set st. sid x = sid doc \<or> email x = email doc) then Inl DuplicateKey
          else Inr (doc, st @ [doc]))"

definition setFields :: "int \<Rightarrow> body \<Rightarrow> student \<Rightarrow> student" where
  \<comment> \<open>the \<^verbatim>\<open>$set\<close> of the six paths and of \<^verbatim>\<open>updatedAt\<close>\<close>
  "setFields now d x = x \<lparr>
     name := the (body_name d),
     address := the (body_address d),
     city := the (body_city d),
     state := the (body_state d),
     email := the (body_email d),
     phone := the (body_phone d),
     updatedAt := now \<rparr>"

fun updateFirst :: "('a \<Rightarrow> bool) \<Rightarrow> ('a \<Rightarrow> 'a) \<Rightarrow> 'a list \<Rightarrow> 'a list" where
  "updateFirst P f [] = []"
| "updateFirst P f (x # xs) = (if P x then f x # xs else x # updateFirst P f xs)"

definition findByIdAndUpdate ::
  "int \<Rightarrow> string \<Rightarrow> body \<Rightarrow> store \<Rightarrow> failure + (student \<times> store) option" where
  \<comment> \<open>\<^verbatim>\<open>Student.findByIdAndUpdate(id, {...}, { new: true, runValidators: true })\<close>:
      cast the identifier and the update, run the update validators, then update the
      matching document under the unique index on \<^verbatim>\<open>email\<close>\<close>
  "findByIdAndUpdate now p b st =
     (case castObjectId p of
        None \<Rightarrow> Inl (CastError p)
      | Some i \<Rightarrow>
          let d = applySetters b in
          case validate d of
            Some e \<Rightarrow> Inl e
          | None \<Rightarrow>
              (case findById i st of
                 None \<Rightarrow> Inr None
               | Some x \<Rightarrow>
                   if (\<exists>y \<in> set st. sid y \<noteq> i \<and> email y = the (body_email d))
                   then Inl DuplicateKey
                   else Inr (Some (setFields now d x,
                                   updateFirst (\<lambda>y. sid y = i) (setFields now d) st))))"

definition findByIdAndDelete :: "string \<Rightarrow> store \<Rightarrow> failure + (student \<times> store) option" where
  "findByIdAndDelete p st =
     (case castObjectId p of
        None \<Rightarrow> Inl (CastError p)
      | Some i \<Rightarrow>
          (case findById i st of
             None \<Rightarrow> Inr None
           | Some x \<Rightarrow> Inr (Some (x, remove1 x st))))"

definition find_sort_createdAt_desc :: "store \<Rightarrow> student list" where
  \<comment> \<open>\<^verbatim>\<open>Student.find().sort({ createdAt: -1 })\<close>; documents of equal \<^verbatim>\<open>createdAt\<close>
      stay in insertion order\<close>
  "find_sort_createdAt_desc st = sort_key (\<lambda>d. - createdAt d) st"

subsection \<open>The handlers\<close>

definition get_students :: "store \<Rightarrow> response" where
  \<comment> \<open>\<^verbatim>\<open>GET /api/students\<close>\<close>
  "get_students st = Response 200 (Docs (find_sort_createdAt_desc st))"

definition get_students_id :: "string \<Rightarrow> store \<Rightarrow> response" where
  \<comment> \<open>\<^verbatim>\<open>GET /api/students/:id\<close>\<close>
  "get_students_id p st =
     (case castObjectId p of
        None \<Rightarrow> Response 500 (MessageError ''Error fetching student'' (CastError p))
      | Some i \<Rightarrow>
          (case findById i st of
             None \<Rightarrow> Response 404 (Message ''Student not found'')
           | Some x \<Rightarrow> Response 200 (Doc x)))"

definition post_students ::
  "int \<Rightarrow> objectId \<Rightarrow> body option \<Rightarrow> store \<Rightarrow> response \<times> store" where
  \<comment> \<open>\<^verbatim>\<open>POST /api/students\<close>. The destructuring of line 104 throws on an undefined
      \<^verbatim>\<open>req.body\<close>; past the check of line 107 \<^verbatim>\<open>email\<close> is a present string\<close>
  "post_students now i req_body st =
     (case req_body of
        None \<Rightarrow> (Response 400 (MessageError ''Error creating student'' TypeError), st)
      | Some b \<Rightarrow>
          if missing b then (Response 400 (Message ''All fields are required''), st)
          else case findOne_email (the (body_email b)) st of
            Some x \<Rightarrow> (Response 400 (Message ''Student with this email already exists''), st)
          | None \<Rightarrow>
              (case save now i b st of
                 Inr (savedStudent, st') \<Rightarrow> (Response 201 (Doc savedStudent), st')
               | Inl error \<Rightarrow>
                   if code error = Some 11000
                   then (Response 400 (Message ''Student with this email already exists''), st)
                   else (Response 400 (MessageError ''Error creating student'' error), st)))"

definition put_students_id ::
  "int \<Rightarrow> string \<Rightarrow> body option \<Rightarrow> store \<Rightarrow> response \<times> store" where
  \<comment> \<open>\<^verbatim>\<open>PUT /api/students/:id\<close>. The destructuring of line 139 throws on an undefined
      \<^verbatim>\<open>req.body\<close>; past the check of line 142 \<^verbatim>\<open>email\<close> is a present string\<close>
  "put_students_id now p req_body st =
     (case req_body of
        None \<Rightarrow> (Response 400 (MessageError ''Error updating student'' TypeError), st)
      | Some b \<Rightarrow>
          if missing b then (Response 400 (Message ''All fields are required''), st)
          else case findOne_email_ne (the (body_email b)) p st of
            Inl error \<Rightarrow> (Response 400 (MessageError ''Error updating student'' error), st)
          | Inr (Some x) \<Rightarrow>
              (Response 400 (Message ''Student with this email already exists''), st)
          | Inr None \<Rightarrow>
              (case findByIdAndUpdate now p b st of
                 Inr (Some (student, st')) \<Rightarrow> (Response 200 (Doc student), st')
               | Inr None \<Rightarrow> (Response 404 (Message ''Student not found''), st)
               | Inl error \<Rightarrow>
                   if code error = Some 11000
                   then (Response 400 (Message ''Student with this email already exists''), st)
                   else (Response 400 (MessageError ''Error updating student'' error), st)))"

definition delete_students_id :: "string \<Rightarrow> store \<Rightarrow> response \<times> store" where
  \<comment> \<open>\<^verbatim>\<open>DELETE /api/students/:id\<close>\<close>
  "delete_students_id p st =
     (case findByIdAndDelete p st of
        Inl error \<Rightarrow> (Response 500 (MessageError ''Error deleting student'' error), st)
      | Inr None \<Rightarrow> (Response 404 (Message ''Student not found''), st)
      | Inr (Some (student, st')) \<Rightarrow> (Response 200 (Message ''Student deleted successfully''), st'))"

subsection \<open>The record set over time\<close>

text \<open>
  The collections that the service can reach from the empty one. Reading requests leave
  the collection as it is; the clock reading and the new identifier are arbitrary.
\<close>

inductive reachable :: "store \<Rightarrow> bool" where
  init: "reachable []"
| create: "reachable st \<Longrightarrow> reachable (snd (post_students now i req_body st))"
| update: "reachable st \<Longrightarrow> reachable (snd (put_students_id now p req_body st))"
| delete: "reachable st \<Longrightarrow> reachable (snd (delete_students_id p st))"

definition uniqueEmails :: "store \<Rightarrow> bool" where
  \<comment> \<open>the invariant of the data model, in its words: no two records share the same
      normalized email\<close>
  "uniqueEmails st = distinct (map (\<lambda>d. normalizeEmail (email d)) st)"

definition storeInv :: "store \<Rightarrow> bool" where
  \<comment> \<open>what the unique indexes and the setters keep: identifiers and stored emails are
      unique, and a stored email is in normal form\<close>
  "storeInv st = (distinct (map sid st) \<and> distinct (map email st)
     \<and> (\<forall>d \<in> set st. normalizeEmail (email d) = email d))"

subsection \<open>Example data\<close>

text \<open>Two identifiers in use, a third one, two request bodies and the records they make.\<close>

definition exampleId :: objectId where
  "exampleId = ''0123456789abcdef01234567''"

definition otherId :: objectId where
  "otherId = ''89abcdef0123456789abcdef''"

definition thirdId :: objectId where
  "thirdId = ''aaaaaaaaaaaaaaaaaaaaaaaa''"

definition exampleBody :: body where
  "exampleBody = \<lparr>body_name = Some ''Ada'', body_address = Some ''1 Rd'',
     body_city = Some ''Pisa'', body_state = Some ''PI'', body_email = Some '' A@B.Co '',
     body_phone = Some ''555''\<rparr>"

definition secondBody :: body where
  "secondBody = exampleBody\<lparr>body_email := Some ''c@d.co''\<rparr>"

definition exampleStudent :: student where
  "exampleStudent = \<lparr>sid = exampleId, name = ''Ada'', address = ''1 Rd'', city = ''Pisa'',
     state = ''PI'', email = ''a@b.co'', phone = ''555'', createdAt = 1, updatedAt = 1\<rparr>"

definition secondStudent :: student where
  "secondStudent = \<lparr>sid = otherId, name = ''Ada'', address = ''1 Rd'', city = ''Pisa'',
     state = ''PI'', email = ''c@d.co'', phone = ''555'', createdAt = 2, updatedAt = 2\<rparr>"

section \<open>Lemmas\<close>

subsection \<open>Normalization\<close>

lemma of_char_lowerChar:
  "(of_char (lowerChar c) :: nat) = (if isUpper c then of_char c + 32 else of_char c)"
  by (auto simp: lowerChar_def isUpper_def Let_def of_char_of)

lemma not_isUpper_lowerChar: "\<not> isUpper (lowerChar c)"
  unfolding isUpper_def [of "lowerChar c"] of_char_lowerChar
  by (auto simp: isUpper_def Let_def)

lemma lowerChar_idem: "lowerChar (lowerChar c) = lowerChar c"
  using not_isUpper_lowerChar [of c] by (simp add: lowerChar_def [of "lowerChar c"])

lemma isWhiteSpace_lowerChar: "isWhiteSpace (lowerChar c) = isWhiteSpace c"
  unfolding isWhiteSpace_def [of "lowerChar c"] of_char_lowerChar
  by (auto simp: isUpper_def isWhiteSpace_def Let_def)

lemma toLowerCase_idem: "toLowerCase (toLowerCase s) = toLowerCase s"
  by (simp add: toLowerCase_def lowerChar_idem)

lemma trim_toLowerCase: "trim (toLowerCase s) = toLowerCase (trim s)"
proof -
  have comp: "isWhiteSpace \<circ> lowerChar = isWhiteSpace"
    by (rule ext) (simp add: isWhiteSpace_lowerChar)
  show ?thesis
    by (simp add: trim_def toLowerCase_def dropWhile_map rev_map comp)
qed

lemma dropWhile_hd_id: "xs = [] \<or> \<not> P (hd xs) \<Longrightarrow> dropWhile P xs = xs"
  by (cases xs) auto

lemma dropWhile_head: "dropWhile P xs = [] \<or> \<not> P (hd (dropWhile P xs))"
  by (induction xs) auto

lemma trim_idem: "trim (trim s) = trim s"
proof -
  define t where "t = dropWhile isWhiteSpace s"
  define u where "u = rev (dropWhile isWhiteSpace (rev t))"
  have t_head: "t = [] \<or> \<not> isWhiteSpace (hd t)"
    unfolding t_def by (rule dropWhile_head)
  have "u @ rev (takeWhile isWhiteSpace (rev t)) =
        rev (takeWhile isWhiteSpace (rev t) @ dropWhile isWhiteSpace (rev t))"
    unfolding u_def by (simp only: rev_append)
  also have "\<dots> = t"
    by simp
  finally have split: "t = u @ rev (takeWhile isWhiteSpace (rev t))"
    by simp
  have u_head: "u = [] \<or> \<not> isWhiteSpace (hd u)"
  proof (cases u)
    case Nil
    then show ?thesis by simp
  next
    case (Cons a v)
    with split have "t = a # v @ rev (takeWhile isWhiteSpace (rev t))" by simp
    then have "hd t = a" "t \<noteq> []" by (metis list.sel(1), metis list.distinct(1))
    with t_head Cons show ?thesis by simp
  qed
  have u_last: "dropWhile isWhiteSpace (rev u) = rev u"
    unfolding u_def rev_rev_ident
    by (rule dropWhile_hd_id) (rule dropWhile_head)
  have "trim (trim s) = rev (dropWhile isWhiteSpace (rev (dropWhile isWhiteSpace u)))"
    by (simp add: trim_def t_def u_def)
  also have "dropWhile isWhiteSpace u = u"
    using u_head by (rule dropWhile_hd_id)
  also have "rev (dropWhile isWhiteSpace (rev u)) = u"
    by (simp add: u_last)
  finally show ?thesis
    by (simp add: trim_def t_def u_def)
qed

lemma normalizeEmail_idem: "normalizeEmail (normalizeEmail s) = normalizeEmail s"
  by (simp add: normalizeEmail_def trim_toLowerCase toLowerCase_idem trim_idem)

lemma trim_Nil: "trim [] = []"
  by (simp add: trim_def)

lemma normalizeEmail_Nil: "normalizeEmail [] = []"
  by (simp add: normalizeEmail_def trim_def toLowerCase_def)

lemma trim_whitespace: "list_all isWhiteSpace w \<Longrightarrow> trim w = []"
proof -
  assume "list_all isWhiteSpace w"
  then have blank: "dropWhile isWhiteSpace w = []"
    by (induction w) simp_all
  show ?thesis
    by (simp only: trim_def blank rev.simps dropWhile.simps)
qed

lemma validator_Nil: "\<not> validator []"
  by (simp add: validator_def emailRegex_def Plus_def Opt_def Let_def)

subsection \<open>Queries and validation\<close>

lemma findOne_email_None:
  "(findOne_email e st = None) = (\<forall>d \<in> set st. email d \<noteq> normalizeEmail e)"
  by (auto simp: findOne_email_def find_None_iff)

lemma findOne_email_Some:
  "\<exists>d \<in> set st. email d = normalizeEmail e \<Longrightarrow> \<exists>x. findOne_email e st = Some x"
  using findOne_email_None [of e st] by (cases "findOne_email e st") auto

lemma findById_None: "(findById i st = None) = (\<forall>d \<in> set st. sid d \<noteq> i)"
  by (auto simp: findById_def find_None_iff)

lemma findById_Some: "findById i st = Some x \<Longrightarrow> x \<in> set st \<and> sid x = i"
  by (auto simp: findById_def find_Some_iff)

lemma findOne_email_ne_None:
  assumes "castObjectId p = Some i"
    and "\<forall>d \<in> set st. email d = normalizeEmail e \<longrightarrow> sid d = i"
  shows "findOne_email_ne e p st = Inr None"
  using assms by (auto simp: findOne_email_ne_def find_None_iff)

lemma findOne_email_ne_Some:
  assumes "castObjectId p = Some i"
    and "\<exists>d \<in> set st. sid d \<noteq> i \<and> email d = normalizeEmail e"
  shows "\<exists>x. findOne_email_ne e p st = Inr (Some x)"
proof -
  from assms(2) have "List.find (\<lambda>d. email d = normalizeEmail e \<and> sid d \<noteq> i) st \<noteq> None"
    by (auto simp: find_None_iff)
  with assms(1) show ?thesis
    by (auto simp: findOne_email_ne_def)
qed

lemma validate_complete:
  assumes "trim n \<noteq> []" "trim a \<noteq> []" "trim c \<noteq> []" "trim s \<noteq> []" "trim ph \<noteq> []"
    and "validator (normalizeEmail e)"
  shows "validate (applySetters \<lparr>body_name = Some n, body_address = Some a, body_city = Some c,
    body_state = Some s, body_email = Some e, body_phone = Some ph\<rparr>) = None"
proof -
  from assms(6) have "normalizeEmail e \<noteq> []"
    using validator_Nil by auto
  with assms show ?thesis
    by (simp add: validate_def failingPaths_def applySetters_def requiredOk_def emailOk_def)
qed

lemma complete_not_missing:
  assumes "trim n \<noteq> []" "trim a \<noteq> []" "trim c \<noteq> []" "trim s \<noteq> []" "trim ph \<noteq> []"
    and "normalizeEmail e \<noteq> []"
  shows "\<not> missing \<lparr>body_name = Some n, body_address = Some a, body_city = Some c,
    body_state = Some s, body_email = Some e, body_phone = Some ph\<rparr>"
  using assms trim_Nil normalizeEmail_Nil by (auto simp: missing_def falsy_def)

lemma validate_not_missing:
  assumes "validate (applySetters b) = None"
  shows "\<not> missing b"
proof -
  have req: "requiredOk (map_option trim v) \<Longrightarrow> \<not> falsy v" for v
    using trim_Nil by (cases v) (auto simp: requiredOk_def falsy_def)
  have em: "emailOk (map_option normalizeEmail v) \<Longrightarrow> \<not> falsy v" for v
    using normalizeEmail_Nil by (cases v) (auto simp: emailOk_def falsy_def)
  from assms have "failingPaths (applySetters b) = []"
    by (simp add: validate_def split: if_splits)
  then have "requiredOk (map_option trim (body_name b))"
    "requiredOk (map_option trim (body_address b))"
    "requiredOk (map_option trim (body_city b))"
    "requiredOk (map_option trim (body_state b))"
    "emailOk (map_option normalizeEmail (body_email b))"
    "requiredOk (map_option trim (body_phone b))"
    by (simp_all add: failingPaths_def applySetters_def split: if_splits)
  then show ?thesis
    using req em by (simp add: missing_def)
qed

lemma validate_fields:
  assumes "validate (applySetters b) = None"
  shows "\<exists>n a c s e ph. b = \<lparr>body_name = Some n, body_address = Some a, body_city = Some c,
    body_state = Some s, body_email = Some e, body_phone = Some ph\<rparr>"
proof -
  from assms have "\<not> missing b"
    by (rule validate_not_missing)
  then obtain n a c s e ph where "body_name b = Some n" "body_address b = Some a"
    "body_city b = Some c" "body_state b = Some s" "body_email b = Some e" "body_phone b = Some ph"
    by (auto simp: missing_def falsy_def split: option.splits)
  then have "b = \<lparr>body_name = Some n, body_address = Some a, body_city = Some c,
    body_state = Some s, body_email = Some e, body_phone = Some ph\<rparr>"
    by (cases b) simp
  then show ?thesis by blast
qed

lemma blank_fails_validation:
  assumes "f \<in> set [body_name, body_address, body_city, body_state, body_email, body_phone]"
    and "f b = Some w" and "list_all isWhiteSpace w"
  shows "\<exists>ps. validate (applySetters b) = Some (ValidationError ps)"
proof -
  from assms(3) have "trim w = []"
    by (rule trim_whitespace)
  then have "normalizeEmail w = []"
    by (simp add: normalizeEmail_def toLowerCase_def)
  with assms(1,2) \<open>trim w = []\<close> have "failingPaths (applySetters b) \<noteq> []"
    by (auto simp: failingPaths_def applySetters_def requiredOk_def emailOk_def)
  then show ?thesis
    by (simp add: validate_def)
qed

subsection \<open>The outcomes of create and update\<close>

lemma post_students_None:
  "post_students now i None st =
     (Response 400 (MessageError ''Error creating student'' TypeError), st)"
  by (simp add: post_students_def)

lemma put_students_id_None:
  "put_students_id now p None st =
     (Response 400 (MessageError ''Error updating student'' TypeError), st)"
  by (simp add: put_students_id_def)

lemma updateFirst_nth:
  "k < length xs \<Longrightarrow> P (xs ! k) \<Longrightarrow> \<forall>j<k. \<not> P (xs ! j)
    \<Longrightarrow> updateFirst P f xs = xs[k := f (xs ! k)]"
proof (induction xs arbitrary: k)
  case Nil
  then show ?case by simp
next
  case (Cons a xs)
  show ?case
  proof (cases k)
    case 0
    with Cons.prems show ?thesis by simp
  next
    case (Suc m)
    with Cons.prems have "\<not> P a"
      by auto
    moreover from Suc Cons.prems have "m < length xs" "P (xs ! m)" "\<forall>j<m. \<not> P (xs ! j)"
      by auto
    then have "updateFirst P f xs = xs[m := f (xs ! m)]"
      by (rule Cons.IH)
    ultimately show ?thesis
      using Suc by simp
  qed
qed

lemma post_students_valid:
  assumes b: "b = \<lparr>body_name = Some n, body_address = Some a, body_city = Some c,
      body_state = Some s, body_email = Some e, body_phone = Some ph\<rparr>"
    and nonblank: "trim n \<noteq> []" "trim a \<noteq> []" "trim c \<noteq> []" "trim s \<noteq> []" "trim ph \<noteq> []"
    and format: "validator (normalizeEmail e)"
    and unowned: "\<forall>d \<in> set st. email d \<noteq> normalizeEmail e"
    and newid: "\<forall>d \<in> set st. sid d \<noteq> i"
    and doc: "doc = \<lparr>sid = i, name = trim n, address = trim a, city = trim c, state = trim s,
      email = normalizeEmail e, phone = trim ph, createdAt = now, updatedAt = now\<rparr>"
  shows "post_students now i (Some b) st = (Response 201 (Doc doc), st @ [doc])"
proof -
  from format have ne: "normalizeEmail e \<noteq> []"
    using validator_Nil by auto
  have complete: "\<not> missing b"
    unfolding b using nonblank ne by (rule complete_not_missing)
  have valid: "validate (applySetters b) = None"
    unfolding b using nonblank format by (rule validate_complete)
  from unowned have pre: "findOne_email e st = None"
    by (simp add: findOne_email_None)
  have new: "newStudent now i (applySetters b) = doc"
    by (simp add: newStudent_def applySetters_def b doc)
  have "save now i b st = Inr (doc, st @ [doc])"
    using valid new unowned newid by (auto simp: save_def doc Let_def)
  with complete pre show ?thesis
    by (simp add: post_students_def b)
qed

lemma post_students_cases:
  "(snd (post_students now i (Some b) st) = st
      \<and> (\<forall>d. fst (post_students now i (Some b) st) \<noteq> Response 201 (Doc d)))
   \<or> (\<exists>e. body_email b = Some e \<and> validate (applySetters b) = None
        \<and> post_students now i (Some b) st =
            (Response 201 (Doc (newStudent now i (applySetters b))),
             st @ [newStudent now i (applySetters b)])
        \<and> (\<forall>x \<in> set st. sid x \<noteq> i \<and> email x \<noteq> normalizeEmail e))"
proof (cases "missing b")
  case True
  then show ?thesis by (simp add: post_students_def)
next
  case False
  then obtain e where e: "body_email b = Some e"
    by (auto simp: missing_def falsy_def split: option.splits)
  show ?thesis
  proof (cases "findOne_email e st")
    case (Some y)
    with False e show ?thesis by (simp add: post_students_def)
  next
    case None
    show ?thesis
    proof (cases "validate (applySetters b)")
      case vSome: (Some err)
      then obtain ps where "err = ValidationError ps"
        by (auto simp: validate_def split: if_splits)
      with False e None vSome show ?thesis
        by (simp add: post_students_def save_def)
    next
      case vNone: None
      have em: "email (newStudent now i (applySetters b)) = normalizeEmail e"
        and si: "sid (newStudent now i (applySetters b)) = i"
        using e by (simp_all add: newStudent_def applySetters_def)
      show ?thesis
      proof (cases "\<exists>x \<in> set st. sid x = i \<or> email x = normalizeEmail e")
        case True
        with False e None vNone em si show ?thesis
          by (simp add: post_students_def save_def Let_def)
      next
        case fresh: False
        with False e None vNone em si
        have "post_students now i (Some b) st =
            (Response 201 (Doc (newStudent now i (applySetters b))),
             st @ [newStudent now i (applySetters b)])"
          by (simp add: post_students_def save_def Let_def)
        with e vNone fresh show ?thesis
          by blast
      qed
    qed
  qed
qed

lemma post_students_created:
  assumes "post_students now i (Some b) st = (Response 201 (Doc d), st')"
  shows "st' = st @ [d] \<and> createdAt d = now"
proof -
  from assms have "fst (post_students now i (Some b) st) = Response 201 (Doc d)"
    by simp
  with post_students_cases [of now i b st] assms
  have "d = newStudent now i (applySetters b)" and "st' = st @ [newStudent now i (applySetters b)]"
    by auto
  then show ?thesis
    by (simp add: newStudent_def)
qed

lemma map_updateFirst:
  "(\<And>x. g (f x) = g x) \<Longrightarrow> map g (updateFirst P f xs) = map g xs"
  by (induction xs) auto

lemma set_updateFirst:
  "set (updateFirst P f xs) \<subseteq> set xs \<union> f ` {y \<in> set xs. P y}"
  by (induction xs) auto

lemma setFields_sid: "sid (setFields now d x) = sid x"
  by (simp add: setFields_def)

lemma setFields_createdAt: "createdAt (setFields now d x) = createdAt x"
  by (simp add: setFields_def)

lemma put_students_id_valid:
  assumes "castObjectId p = Some i" and "body_email b = Some e"
    and valid: "validate (applySetters b) = None"
    and x: "findById i st = Some x"
    and only: "\<forall>d \<in> set st. email d = normalizeEmail e \<longrightarrow> sid d = i"
  shows "put_students_id now p (Some b) st =
      (Response 200 (Doc (setFields now (applySetters b) x)),
       updateFirst (\<lambda>y. sid y = i) (setFields now (applySetters b)) st)"
proof -
  have complete: "\<not> missing b"
    using valid by (rule validate_not_missing)
  have pre: "findOne_email_ne e p st = Inr None"
    using assms(1) only by (rule findOne_email_ne_None)
  have em: "the (body_email (applySetters b)) = normalizeEmail e"
    using assms(2) by (simp add: applySetters_def)
  have "findByIdAndUpdate now p b st =
      Inr (Some (setFields now (applySetters b) x,
                 updateFirst (\<lambda>y. sid y = i) (setFields now (applySetters b)) st))"
    using assms(1) valid x only em by (auto simp: findByIdAndUpdate_def Let_def)
  with complete assms(2) pre show ?thesis
    by (simp add: put_students_id_def)
qed

lemma put_students_id_cases:
  "(snd (put_students_id now p (Some b) st) = st
      \<and> (\<forall>d. fst (put_students_id now p (Some b) st) \<noteq> Response 200 (Doc d)))
   \<or> (\<exists>i x. castObjectId p = Some i \<and> validate (applySetters b) = None \<and> findById i st = Some x
        \<and> put_students_id now p (Some b) st =
            (Response 200 (Doc (setFields now (applySetters b) x)),
             updateFirst (\<lambda>y. sid y = i) (setFields now (applySetters b)) st)
        \<and> (\<forall>y \<in> set st. sid y \<noteq> i \<longrightarrow> email y \<noteq> the (body_email (applySetters b))))"
proof (cases "missing b")
  case True
  then show ?thesis by (simp add: put_students_id_def)
next
  case False
  show ?thesis
  proof (cases "findOne_email_ne (the (body_email b)) p st")
    case (Inl err)
    with False show ?thesis by (simp add: put_students_id_def)
  next
    case (Inr r)
    show ?thesis
    proof (cases r)
      case (Some y)
      with False Inr show ?thesis by (simp add: put_students_id_def)
    next
      case None
      show ?thesis
      proof (cases "castObjectId p")
        case cNone: None
        with False Inr None show ?thesis
          by (simp add: put_students_id_def findByIdAndUpdate_def)
      next
        case (Some i)
        show ?thesis
        proof (cases "validate (applySetters b)")
          case vSome: (Some err)
          then obtain ps where "err = ValidationError ps"
            by (auto simp: validate_def split: if_splits)
          with False Inr None Some vSome show ?thesis
            by (simp add: put_students_id_def findByIdAndUpdate_def)
        next
          case vNone: None
          show ?thesis
          proof (cases "findById i st")
            case fNone: None
            with False Inr None Some vNone show ?thesis
              by (simp add: put_students_id_def findByIdAndUpdate_def)
          next
            case fSome: (Some x)
            show ?thesis
            proof (cases "\<exists>y \<in> set st. sid y \<noteq> i \<and> email y = the (body_email (applySetters b))")
              case True
              with False Inr None Some vNone fSome show ?thesis
                by (simp add: put_students_id_def findByIdAndUpdate_def)
            next
              case nodup: False
              with False Inr None Some vNone fSome
              have "put_students_id now p (Some b) st =
                  (Response 200 (Doc (setFields now (applySetters b) x)),
                   updateFirst (\<lambda>y. sid y = i) (setFields now (applySetters b)) st)"
                by (simp add: put_students_id_def findByIdAndUpdate_def Let_def)
              with Some vNone fSome nodup show ?thesis
                by blast
            qed
          qed
        qed
      qed
    qed
  qed
qed

subsection \<open>The unique indexes over time\<close>

lemma distinct_email_updateFirst:
  assumes "distinct (map sid st)" and "distinct (map email st)"
    and "\<forall>y \<in> set st. sid y \<noteq> i \<longrightarrow> email y \<noteq> e'"
    and "\<And>x. email (f x) = e'"
  shows "distinct (map email (updateFirst (\<lambda>y. sid y = i) f st))"
  using assms(1,2,3)
proof (induction st)
  case Nil
  then show ?case by simp
next
  case (Cons x xs)
  show ?case
  proof (cases "sid x = i")
    case True
    from Cons.prems have "sid x \<notin> sid ` set xs"
      by simp
    with True have "\<forall>y \<in> set xs. sid y \<noteq> i"
      by blast
    with Cons.prems have "e' \<notin> email ` set xs"
      by auto
    with True Cons.prems assms(4) show ?thesis
      by simp
  next
    case False
    with Cons.prems have "email x \<noteq> e'"
      by simp
    moreover have "email ` set (updateFirst (\<lambda>y. sid y = i) f xs) \<subseteq> insert e' (email ` set xs)"
      using set_updateFirst [of "\<lambda>y. sid y = i" f xs] assms(4) by auto
    moreover from Cons.prems have "email x \<notin> email ` set xs"
      by simp
    ultimately have "email x \<notin> email ` set (updateFirst (\<lambda>y. sid y = i) f xs)"
      by blast
    moreover have "distinct (map email (updateFirst (\<lambda>y. sid y = i) f xs))"
      using Cons.IH Cons.prems by simp
    ultimately show ?thesis
      using False by simp
  qed
qed

lemma storeInv_Nil: "storeInv []"
  by (simp add: storeInv_def)

lemma storeInv_post: "storeInv st \<Longrightarrow> storeInv (snd (post_students now i (Some b) st))"
proof -
  assume inv: "storeInv st"
  from post_students_cases [of now i b st] show ?thesis
  proof (elim disjE exE conjE)
    assume "snd (post_students now i (Some b) st) = st"
    with inv show ?thesis by simp
  next
    fix e
    assume e: "body_email b = Some e"
      and res: "post_students now i (Some b) st =
        (Response 201 (Doc (newStudent now i (applySetters b))),
         st @ [newStudent now i (applySetters b)])"
      and fresh: "\<forall>x \<in> set st. sid x \<noteq> i \<and> email x \<noteq> normalizeEmail e"
    have em: "email (newStudent now i (applySetters b)) = normalizeEmail e"
      and si: "sid (newStudent now i (applySetters b)) = i"
      using e by (simp_all add: newStudent_def applySetters_def)
    from inv fresh em si show ?thesis
      unfolding res storeInv_def by (auto simp: normalizeEmail_idem)
  qed
qed

lemma storeInv_put: "storeInv st \<Longrightarrow> storeInv (snd (put_students_id now p (Some b) st))"
proof -
  assume inv: "storeInv st"
  from put_students_id_cases [of now p b st] show ?thesis
  proof (elim disjE exE conjE)
    assume "snd (put_students_id now p (Some b) st) = st"
    with inv show ?thesis by simp
  next
    fix i x
    assume valid: "validate (applySetters b) = None"
      and res: "put_students_id now p (Some b) st =
        (Response 200 (Doc (setFields now (applySetters b) x)),
         updateFirst (\<lambda>y. sid y = i) (setFields now (applySetters b)) st)"
      and nodup: "\<forall>y \<in> set st. sid y \<noteq> i \<longrightarrow> email y \<noteq> the (body_email (applySetters b))"
    let ?f = "setFields now (applySetters b)"
    let ?e = "the (body_email (applySetters b))"
    from valid obtain n a c s e ph where "b = \<lparr>body_name = Some n, body_address = Some a,
        body_city = Some c, body_state = Some s, body_email = Some e, body_phone = Some ph\<rparr>"
      using validate_fields by blast
    then have "body_email b = Some e"
      by simp
    then have norm: "normalizeEmail ?e = ?e"
      by (simp add: applySetters_def normalizeEmail_idem)
    have fe: "\<And>y. email (?f y) = ?e"
      by (simp add: setFields_def)
    have ids: "map sid (updateFirst (\<lambda>y. sid y = i) ?f st) = map sid st"
      by (rule map_updateFirst) (rule setFields_sid)
    have emails: "distinct (map email (updateFirst (\<lambda>y. sid y = i) ?f st))"
      using inv nodup fe unfolding storeInv_def by (intro distinct_email_updateFirst) auto
    have "\<forall>d \<in> set (updateFirst (\<lambda>y. sid y = i) ?f st). normalizeEmail (email d) = email d"
      using set_updateFirst [of "\<lambda>y. sid y = i" ?f st] inv norm fe
      unfolding storeInv_def by auto
    with ids emails inv show ?thesis
      unfolding res storeInv_def by simp
  qed
qed

lemma storeInv_create: "storeInv st \<Longrightarrow> storeInv (snd (post_students now i req_body st))"
  by (cases req_body) (simp_all only: post_students_None storeInv_post snd_conv)

lemma storeInv_update: "storeInv st \<Longrightarrow> storeInv (snd (put_students_id now p req_body st))"
  by (cases req_body) (simp_all only: put_students_id_None storeInv_put snd_conv)

lemma storeInv_delete: "storeInv st \<Longrightarrow> storeInv (snd (delete_students_id p st))"
proof -
  assume inv: "storeInv st"
  have rem: "storeInv (remove1 x st)" for x
  proof -
    from inv have "distinct st" "inj_on sid (set st)" "inj_on email (set st)"
      by (auto simp: storeInv_def distinct_map)
    then have "distinct (map sid (remove1 x st))" "distinct (map email (remove1 x st))"
      by (auto simp: distinct_map intro: inj_on_subset)
    moreover have "\<forall>d \<in> set (remove1 x st). normalizeEmail (email d) = email d"
      using inv set_remove1_subset [of x st] by (auto simp: storeInv_def)
    ultimately show ?thesis
      by (simp add: storeInv_def)
  qed
  show ?thesis
    using inv rem
    by (auto simp: delete_students_id_def findByIdAndDelete_def split: option.splits)
qed

lemma storeInv_uniqueEmails: "storeInv st \<Longrightarrow> uniqueEmails st"
proof -
  assume inv: "storeInv st"
  then have eq: "map (\<lambda>d. normalizeEmail (email d)) st = map email st"
    by (simp add: storeInv_def)
  from inv have "distinct (map email st)"
    by (simp add: storeInv_def)
  then show ?thesis
    unfolding uniqueEmails_def eq .
qed

subsection \<open>The example data, evaluated\<close>

lemma example_trim:
  "trim ''Ada'' = ''Ada''" "trim ''1 Rd'' = ''1 Rd''" "trim ''Pisa'' = ''Pisa''"
  "trim ''PI'' = ''PI''" "trim ''555'' = ''555''" "trim ''Eve'' = ''Eve''"
  "trim '' '' = []" "trim ''   '' = []"
  by (simp_all add: trim_def isWhiteSpace_def)

lemma example_normalizeEmail:
  "normalizeEmail '' A@B.Co '' = ''a@b.co''"
  "normalizeEmail ''c@d.co'' = ''c@d.co''"
  "normalizeEmail ''e@f.co'' = ''e@f.co''"
  "normalizeEmail ''foo'' = ''foo''"
  by (simp_all add: normalizeEmail_def trim_def toLowerCase_def lowerChar_def isUpper_def
      isWhiteSpace_def char_of_eq_iff)

lemma example_validator:
  "validator ''a@b.co''" "validator ''c@d.co''" "validator ''e@f.co''" "\<not> validator ''foo''"
  by (simp_all add: validator_def emailRegex_def Plus_def Opt_def isWordChar_def Let_def)

lemma example_castObjectId:
  "castObjectId exampleId = Some exampleId" "castObjectId otherId = Some otherId"
  "castObjectId ''abc'' = None"
  by (simp_all add: castObjectId_def exampleId_def otherId_def isHexDigit_def toLowerCase_def
      lowerChar_def isUpper_def)

lemma example_ids: "exampleId \<noteq> otherId" "exampleId \<noteq> thirdId" "otherId \<noteq> thirdId"
  by (simp_all add: exampleId_def otherId_def thirdId_def)

lemma example_valid: "validate (applySetters exampleBody) = None"
  unfolding exampleBody_def
  by (rule validate_complete) (simp_all add: example_trim example_normalizeEmail example_validator)

lemma example_post:
  "post_students 1 exampleId (Some exampleBody) [] = (Response 201 (Doc exampleStudent), [exampleStudent])"
  using post_students_valid [where b = exampleBody and n = "''Ada''" and a = "''1 Rd''"
      and c = "''Pisa''" and s = "''PI''" and e = "'' A@B.Co ''" and ph = "''555''"
      and st = "[]" and i = exampleId and now = 1 and doc = exampleStudent]
  by (simp add: exampleBody_def exampleStudent_def example_trim example_normalizeEmail
      example_validator)

lemma example_second_post:
  "post_students 2 otherId (Some secondBody) [exampleStudent] =
     (Response 201 (Doc secondStudent), [exampleStudent, secondStudent])"
  using post_students_valid [where b = secondBody and n = "''Ada''" and a = "''1 Rd''"
      and c = "''Pisa''" and s = "''PI''" and e = "''c@d.co''" and ph = "''555''"
      and st = "[exampleStudent]" and i = otherId and now = 2 and doc = secondStudent]
    example_ids
  by (simp add: secondBody_def exampleBody_def exampleStudent_def secondStudent_def
      example_trim example_normalizeEmail example_validator)

lemma example_reachable: "reachable [exampleStudent, secondStudent]"
proof -
  from reachable.create [OF reachable.init, of 1 exampleId "Some exampleBody"]
  have "reachable [exampleStudent]"
    by (simp add: example_post)
  from reachable.create [OF this, of 2 otherId "Some secondBody"]
  show ?thesis
    by (simp add: example_second_post)
qed

lemma example_findById: "findById exampleId [exampleStudent] = Some exampleStudent"
  by (simp add: findById_def exampleStudent_def)

lemma example_update_valid:
  "validate (applySetters (exampleBody\<lparr>body_name := Some ''Eve''\<rparr>)) = None"
  unfolding exampleBody_def
  by (simp add: validate_def failingPaths_def applySetters_def requiredOk_def emailOk_def
      example_trim example_normalizeEmail example_validator)

section \<open>The claims\<close>

subsection \<open>C1: no two records share an email\<close>

text \<open>
  C1. In every collection that the service reaches from the empty one, no two records
  share the same normalized (trimmed, lowercased) email, and create, update and delete
  lead from such a collection to one where this holds again.
\<close>

theorem unique_email_invariant:
  "reachable st \<longrightarrow>
     uniqueEmails st
     \<and> uniqueEmails (snd (post_students now i req_body st))
     \<and> uniqueEmails (snd (put_students_id now p req_body' st))
     \<and> uniqueEmails (snd (delete_students_id p' st))"
proof
  assume "reachable st"
  then have inv: "storeInv st"
  proof (induction rule: reachable.induct)
    case init
    show ?case by (rule storeInv_Nil)
  next
    case (create s t j c)
    then show ?case by (simp add: storeInv_create)
  next
    case (update s t q c)
    then show ?case by (simp add: storeInv_update)
  next
    case (delete s q)
    then show ?case by (simp add: storeInv_delete)
  qed
  from inv have "uniqueEmails st"
    by (rule storeInv_uniqueEmails)
  moreover from inv have "uniqueEmails (snd (post_students now i req_body st))"
    by (intro storeInv_uniqueEmails storeInv_create)
  moreover from inv have "uniqueEmails (snd (put_students_id now p req_body' st))"
    by (intro storeInv_uniqueEmails storeInv_update)
  moreover from inv have "uniqueEmails (snd (delete_students_id p' st))"
    by (intro storeInv_uniqueEmails storeInv_delete)
  ultimately show "uniqueEmails st
     \<and> uniqueEmails (snd (post_students now i req_body st))
     \<and> uniqueEmails (snd (put_students_id now p req_body' st))
     \<and> uniqueEmails (snd (delete_students_id p' st))"
    by simp
qed

text \<open>
  Two creates reach a collection of two records. It has the property, and it keeps it
  under a create that repeats the first email, an update that asks for the first
  record's email for the second record, and a delete of the first record.
\<close>

theorem unique_email_invariant_witness:
  "reachable [exampleStudent, secondStudent]
   \<and> uniqueEmails [exampleStudent, secondStudent]
   \<and> uniqueEmails (snd (post_students 3 thirdId (Some exampleBody) [exampleStudent, secondStudent]))
   \<and> uniqueEmails (snd (put_students_id 3 otherId (Some exampleBody) [exampleStudent, secondStudent]))
   \<and> uniqueEmails (snd (delete_students_id exampleId [exampleStudent, secondStudent]))"
  using unique_email_invariant [where st = "[exampleStudent, secondStudent]" and now = 3
      and i = thirdId and req_body = "Some exampleBody" and p = otherId
      and req_body' = "Some exampleBody" and p' = exampleId] example_reachable
  by blast

subsection \<open>C2: create with valid fields and a fresh email\<close>

text \<open>
  C2 as stated fails on a field that is present and non-empty but blank: the name
  \<open>'' ''\<close> passes the handler's check, the schema trims it to the empty string and
  \<^verbatim>\<open>required\<close> rejects it, so create answers 400 and stores nothing.
\<close>

theorem create_blank_name_counterexample:
  "\<not> missing (exampleBody\<lparr>body_name := Some '' ''\<rparr>)
   \<and> validator (normalizeEmail '' A@B.Co '')
   \<and> post_students 1 exampleId (Some (exampleBody\<lparr>body_name := Some '' ''\<rparr>)) [] =
       (Response 400 (MessageError ''Error creating student'' (ValidationError [''name''])), [])"
  by (simp add: post_students_def missing_def falsy_def findOne_email_def save_def
      applySetters_def validate_def failingPaths_def requiredOk_def emailOk_def exampleBody_def
      example_trim example_normalizeEmail example_validator)

text \<open>
  C2, amended. For every request body whose six fields are present and non-empty after
  trimming, whose trimmed and lowercased email matches the required format and is the
  normalized email of no existing record, and for a generated identifier that no record
  has, create returns HTTP 201 with the new record, appended to the collection: its
  email is the trimmed and lowercased input email, the other fields are the trimmed
  inputs, the identifier is the generated one and both timestamps are the clock reading.
\<close>

theorem create_valid_fresh:
  assumes "b = \<lparr>body_name = Some n, body_address = Some a, body_city = Some c,
      body_state = Some s, body_email = Some e, body_phone = Some ph\<rparr>"
    and "trim n \<noteq> []" "trim a \<noteq> []" "trim c \<noteq> []" "trim s \<noteq> []" "trim ph \<noteq> []"
    and "validator (normalizeEmail e)"
    and fresh: "\<forall>d \<in> set st. normalizeEmail (email d) \<noteq> normalizeEmail e"
    and "\<forall>d \<in> set st. sid d \<noteq> i"
    and "doc = \<lparr>sid = i, name = trim n, address = trim a, city = trim c, state = trim s,
      email = normalizeEmail e, phone = trim ph, createdAt = now, updatedAt = now\<rparr>"
  shows "post_students now i (Some b) st = (Response 201 (Doc doc), st @ [doc])"
proof -
  have unowned: "\<forall>d \<in> set st. email d \<noteq> normalizeEmail e"
    using fresh normalizeEmail_idem by metis
  show ?thesis
    by (rule post_students_valid [OF assms(1-7) unowned assms(9,10)])
qed

theorem create_valid_fresh_witness:
  "validator (normalizeEmail '' A@B.Co '')
   \<and> post_students 1 exampleId (Some exampleBody) [] = (Response 201 (Doc exampleStudent), [exampleStudent])"
  using create_valid_fresh [where b = exampleBody and n = "''Ada''" and a = "''1 Rd''"
      and c = "''Pisa''" and s = "''PI''" and e = "'' A@B.Co ''" and ph = "''555''"
      and st = "[]" and i = exampleId and now = 1 and doc = exampleStudent]
  by (simp add: exampleBody_def exampleStudent_def example_trim example_normalizeEmail
      example_validator)

subsection \<open>C3: create with an email that a record has\<close>

text \<open>
  C3 as stated fails on a request that lacks another field: the required-fields check
  comes first, so a request without a name whose email a record has gets 400 with
  "All fields are required".
\<close>

theorem create_incomplete_duplicate_counterexample:
  "email exampleStudent = normalizeEmail '' A@B.Co ''
   \<and> post_students 2 otherId (Some (exampleBody\<lparr>body_name := None\<rparr>)) [exampleStudent] =
       (Response 400 (Message ''All fields are required''), [exampleStudent])"
  by (simp add: post_students_def missing_def falsy_def exampleBody_def exampleStudent_def
      example_normalizeEmail)

text \<open>
  C3, amended. For every create request whose six fields are present and non-empty and
  whose email, trimmed and lowercased, is the stored email of an existing record (so
  also when it differs from the stored one only in letter case or surrounding
  whitespace), create returns HTTP 400 with the message "Student with this email
  already exists" and leaves the collection as it was.
\<close>

theorem create_duplicate_email:
  assumes "\<not> missing b" and "body_email b = Some e"
    and "\<exists>d \<in> set st. email d = normalizeEmail e"
  shows "post_students now i (Some b) st =
    (Response 400 (Message ''Student with this email already exists''), st)"
proof -
  from assms(3) obtain x where "findOne_email e st = Some x"
    using findOne_email_Some by blast
  with assms(1,2) show ?thesis
    by (simp add: post_students_def)
qed

theorem create_duplicate_email_witness:
  "\<not> missing exampleBody
   \<and> email exampleStudent = normalizeEmail '' A@B.Co ''
   \<and> post_students 2 otherId (Some exampleBody) [exampleStudent] =
       (Response 400 (Message ''Student with this email already exists''), [exampleStudent])"
proof -
  have h1: "\<not> missing exampleBody"
    by (simp add: missing_def falsy_def exampleBody_def)
  have h2: "body_email exampleBody = Some '' A@B.Co ''"
    by (simp add: exampleBody_def)
  have h3: "email exampleStudent = normalizeEmail '' A@B.Co ''"
    by (simp add: exampleStudent_def example_normalizeEmail)
  then have h4: "\<exists>d \<in> set [exampleStudent]. email d = normalizeEmail '' A@B.Co ''"
    by simp
  from create_duplicate_email [OF h1 h2 h4, of 2 otherId] h1 h3 show ?thesis
    by simp
qed

subsection \<open>C4: the required-fields check comes first\<close>

text \<open>
  C4 as stated fails on a request without a parsed body. Under Express 5 its
  \<^verbatim>\<open>req.body\<close> is \<^verbatim>\<open>undefined\<close>: all six fields are missing, but the destructuring at
  lines 104 and 139 throws inside the \<^verbatim>\<open>try\<close>, before the required-fields check, and the
  \<^verbatim>\<open>catch\<close> answers "Error creating student" or "Error updating student".
\<close>

theorem request_without_body_counterexample:
  "post_students 1 exampleId None [] =
     (Response 400 (MessageError ''Error creating student'' TypeError), [])
   \<and> put_students_id 1 exampleId None [exampleStudent] =
     (Response 400 (MessageError ''Error updating student'' TypeError), [exampleStudent])"
  by (simp add: post_students_def put_students_id_def)

text \<open>
  C4, amended. For every create or update request whose body is a parsed JSON object in
  which any of the six fields is missing or empty, whichever it is, the operation
  returns HTTP 400 with the message "All fields are required" and leaves the
  collection as it was. Nothing is assumed of the collection or of the identifier, so
  this check precedes the email-uniqueness check: an incomplete request whose email a
  record has gets this message.
\<close>

theorem required_fields_first:
  assumes "f \<in> set [body_name, body_address, body_city, body_state, body_email, body_phone]"
    and "f b = None \<or> f b = Some []"
  shows "post_students now i (Some b) st = (Response 400 (Message ''All fields are required''), st)
       \<and> put_students_id now p (Some b) st = (Response 400 (Message ''All fields are required''), st)"
proof -
  from assms(2) have "falsy (f b)"
    by (auto simp: falsy_def)
  with assms(1) have "missing b"
    by (auto simp: missing_def)
  then show ?thesis
    by (simp add: post_students_def put_students_id_def)
qed

theorem required_fields_first_witness:
  "post_students 1 exampleId (Some (exampleBody\<lparr>body_city := Some []\<rparr>)) [exampleStudent] =
     (Response 400 (Message ''All fields are required''), [exampleStudent])
   \<and> put_students_id 1 exampleId (Some (exampleBody\<lparr>body_city := Some []\<rparr>)) [exampleStudent] =
     (Response 400 (Message ''All fields are required''), [exampleStudent])"
proof -
  have h1: "body_city \<in> set [body_name, body_address, body_city, body_state, body_email, body_phone]"
    by simp
  have h2: "body_city (exampleBody\<lparr>body_city := Some []\<rparr>) = None
      \<or> body_city (exampleBody\<lparr>body_city := Some []\<rparr>) = Some []"
    by simp
  from required_fields_first [OF h1 h2] show ?thesis .
qed

subsection \<open>C5: a malformed email at the write step\<close>

text \<open>
  C5 as stated fails: a format violation is a validation error, which carries no
  \<^verbatim>\<open>code\<close>, so the handler's \<^verbatim>\<open>catch\<close> answers "Error creating student" with the
  error detail, not the duplicate-email message.
\<close>

theorem create_malformed_email_counterexample:
  "\<not> validator (normalizeEmail ''foo'')
   \<and> post_students 1 exampleId (Some (exampleBody\<lparr>body_email := Some ''foo''\<rparr>)) [] =
       (Response 400 (MessageError ''Error creating student'' (ValidationError [''email''])), [])"
  by (simp add: post_students_def missing_def falsy_def findOne_email_def save_def
      applySetters_def validate_def failingPaths_def requiredOk_def emailOk_def exampleBody_def
      example_trim example_normalizeEmail example_validator)

text \<open>
  C5, amended. For every create request that reaches the write step (its six fields are
  present and non-empty and no record has its normalized email) and whose normalized
  email does not match the required format, create returns HTTP 400 with the message
  "Error creating student" and a validation error that names the path \<^verbatim>\<open>email\<close>, and
  leaves the collection as it was.
\<close>

theorem create_malformed_email:
  assumes "\<not> missing b" and "body_email b = Some e"
    and "\<forall>d \<in> set st. email d \<noteq> normalizeEmail e"
    and "\<not> validator (normalizeEmail e)"
  shows "\<exists>paths. ''email'' \<in> set paths \<and> post_students now i (Some b) st =
    (Response 400 (MessageError ''Error creating student'' (ValidationError paths)), st)"
proof -
  have pre: "findOne_email e st = None"
    using assms(3) by (simp add: findOne_email_None)
  have bad: "\<not> emailOk (body_email (applySetters b))"
    using assms(2,4) by (simp add: applySetters_def emailOk_def)
  then have mem: "''email'' \<in> set (failingPaths (applySetters b))"
    by (simp add: failingPaths_def)
  then have "failingPaths (applySetters b) \<noteq> []"
    by auto
  then have "save now i b st = Inl (ValidationError (failingPaths (applySetters b)))"
    by (simp add: save_def validate_def)
  with assms(1,2) pre mem show ?thesis
    by (simp add: post_students_def)
qed

theorem create_malformed_email_witness:
  "\<not> validator (normalizeEmail ''foo'')
   \<and> (\<exists>paths. ''email'' \<in> set paths
        \<and> post_students 1 exampleId (Some (exampleBody\<lparr>body_email := Some ''foo''\<rparr>)) [] =
          (Response 400 (MessageError ''Error creating student'' (ValidationError paths)), []))"
proof -
  have h1: "\<not> missing (exampleBody\<lparr>body_email := Some ''foo''\<rparr>)"
    by (simp add: missing_def falsy_def exampleBody_def)
  have h2: "body_email (exampleBody\<lparr>body_email := Some ''foo''\<rparr>) = Some ''foo''"
    by simp
  have h3: "\<forall>d \<in> set []. email d \<noteq> normalizeEmail ''foo''"
    by simp
  have h4: "\<not> validator (normalizeEmail ''foo'')"
    by (simp add: example_normalizeEmail example_validator)
  from create_malformed_email [OF h1 h2 h3 h4, of 1 exampleId] h4 show ?thesis
    by simp
qed

subsection \<open>C6: an identifier that no record has\<close>

text \<open>
  C6 as stated fails on a path parameter that is not an identifier at all: casting
  \<^verbatim>\<open>abc\<close> fails, so get and delete answer 500 and update answers 400, each with the
  cast error as detail. An update also answers 400 for a well-formed identifier that no
  record has when the body is complete but its email is malformed: the update validators
  run before the record is looked up.
\<close>

theorem malformed_id_counterexample:
  "get_students_id ''abc'' [] =
     Response 500 (MessageError ''Error fetching student'' (CastError ''abc''))
   \<and> delete_students_id ''abc'' [] =
     (Response 500 (MessageError ''Error deleting student'' (CastError ''abc'')), [])
   \<and> put_students_id 1 ''abc'' (Some exampleBody) [] =
     (Response 400 (MessageError ''Error updating student'' (CastError ''abc'')), [])
   \<and> put_students_id 2 otherId (Some (exampleBody\<lparr>body_email := Some ''foo''\<rparr>)) [exampleStudent] =
     (Response 400 (MessageError ''Error updating student'' (ValidationError [''email''])),
      [exampleStudent])"
  using example_ids
  by (simp add: get_students_id_def delete_students_id_def findByIdAndDelete_def
      put_students_id_def findOne_email_ne_def findByIdAndUpdate_def missing_def falsy_def
      applySetters_def validate_def failingPaths_def requiredOk_def emailOk_def
      exampleBody_def exampleStudent_def example_castObjectId example_trim
      example_normalizeEmail example_validator)

text \<open>
  C6, amended. For every well-formed identifier (24 hexadecimal digits) that no record
  of the collection has, get and delete return HTTP 404 with the message "Student not
  found", and so does update with a body that passes the schema's validators (six
  fields non-empty after trimming, the normalized email in the required format) and
  whose normalized email no record has; the collection stays as it was.
\<close>

theorem unknown_id_not_found:
  assumes "castObjectId p = Some i" and "\<forall>d \<in> set st. sid d \<noteq> i"
  shows "get_students_id p st = Response 404 (Message ''Student not found'')
    \<and> delete_students_id p st = (Response 404 (Message ''Student not found''), st)
    \<and> (validate (applySetters b) = None \<and> body_email b = Some e
          \<and> (\<forall>d \<in> set st. email d \<noteq> normalizeEmail e)
        \<longrightarrow> put_students_id now p (Some b) st = (Response 404 (Message ''Student not found''), st))"
proof -
  from assms(2) have absent: "findById i st = None"
    by (simp add: findById_None)
  have get: "get_students_id p st = Response 404 (Message ''Student not found'')"
    using assms(1) absent by (simp add: get_students_id_def)
  have del: "delete_students_id p st = (Response 404 (Message ''Student not found''), st)"
    using assms(1) absent by (simp add: delete_students_id_def findByIdAndDelete_def)
  have put: "put_students_id now p (Some b) st = (Response 404 (Message ''Student not found''), st)"
    if valid: "validate (applySetters b) = None" and e: "body_email b = Some e"
      and unowned: "\<forall>d \<in> set st. email d \<noteq> normalizeEmail e"
  proof -
    have complete: "\<not> missing b"
      using valid by (rule validate_not_missing)
    have pre: "findOne_email_ne e p st = Inr None"
      using assms(1) unowned by (simp add: findOne_email_ne_None)
    have "findByIdAndUpdate now p b st = Inr None"
      using assms(1) valid absent by (simp add: findByIdAndUpdate_def)
    with complete e pre show ?thesis
      by (simp add: put_students_id_def)
  qed
  from get del put show ?thesis
    by blast
qed

theorem unknown_id_not_found_witness:
  "castObjectId otherId = Some otherId
   \<and> get_students_id otherId [exampleStudent] = Response 404 (Message ''Student not found'')
   \<and> delete_students_id otherId [exampleStudent] =
       (Response 404 (Message ''Student not found''), [exampleStudent])
   \<and> put_students_id 2 otherId (Some exampleBody) [] = (Response 404 (Message ''Student not found''), [])"
proof -
  have h1: "castObjectId otherId = Some otherId"
    by (rule example_castObjectId)
  have h2: "\<forall>d \<in> set [exampleStudent]. sid d \<noteq> otherId"
    using example_ids by (simp add: exampleStudent_def)
  have h3: "\<forall>d \<in> set ([] :: store). sid d \<noteq> otherId"
    by simp
  have h4: "body_email exampleBody = Some '' A@B.Co ''"
    by (simp add: exampleBody_def)
  from unknown_id_not_found [OF h1 h2, of exampleBody "'' A@B.Co ''" 2]
    unknown_id_not_found [OF h1 h3, of exampleBody "'' A@B.Co ''" 2] h1 h4 example_valid
  show ?thesis
    by simp
qed

subsection \<open>C7: the uniqueness check of update excludes the updated record\<close>

text \<open>
  C7 as stated fails on a body that keeps the record's own email but does not pass the
  validators: with the blank name \<open>'' ''\<close> the update answers 400 with "Error updating
  student" and the record stays as it was. And an update that lacks a field answers "All
  fields are required" also when its email is the email of a different record.
\<close>

theorem update_blank_name_counterexample:
  "findById exampleId [exampleStudent] = Some exampleStudent
   \<and> email exampleStudent = normalizeEmail '' A@B.Co ''
   \<and> put_students_id 2 ''0123456789abcdef01234567'' (Some (exampleBody\<lparr>body_name := Some '' ''\<rparr>))
       [exampleStudent] =
     (Response 400 (MessageError ''Error updating student'' (ValidationError [''name''])),
      [exampleStudent])
   \<and> put_students_id 2 otherId (Some (exampleBody\<lparr>body_phone := None\<rparr>)) [exampleStudent] =
     (Response 400 (Message ''All fields are required''), [exampleStudent])"
  using example_castObjectId(1)
  by (simp add: put_students_id_def missing_def falsy_def findOne_email_ne_def
      findByIdAndUpdate_def applySetters_def validate_def failingPaths_def requiredOk_def
      emailOk_def exampleBody_def exampleStudent_def exampleId_def findById_def
      example_trim example_normalizeEmail example_validator)

text \<open>
  C7, amended. For a well-formed identifier: updating the record that has it with a body
  that passes the schema's validators and keeps the record's own email (up to trimming
  and letter case), in a collection of unique emails, succeeds with HTTP 200; updating
  with a complete body whose normalized email is the email of a record with a different
  identifier returns HTTP 400 with the message "Student with this email already
  exists" and leaves the collection as it was.
\<close>

theorem update_excludes_self:
  assumes "castObjectId p = Some i" and "body_email b = Some e"
  shows "(validate (applySetters b) = None \<and> distinct (map email st)
            \<and> findById i st = Some x \<and> email x = normalizeEmail e
          \<longrightarrow> put_students_id now p (Some b) st =
              (Response 200 (Doc (setFields now (applySetters b) x)),
               updateFirst (\<lambda>y. sid y = i) (setFields now (applySetters b)) st))
    \<and> (\<not> missing b \<and> (\<exists>d \<in> set st. sid d \<noteq> i \<and> email d = normalizeEmail e)
          \<longrightarrow> put_students_id now p (Some b) st =
              (Response 400 (Message ''Student with this email already exists''), st))"
proof -
  have own: "put_students_id now p (Some b) st =
      (Response 200 (Doc (setFields now (applySetters b) x)),
       updateFirst (\<lambda>y. sid y = i) (setFields now (applySetters b)) st)"
    if valid: "validate (applySetters b) = None" and uniq: "distinct (map email st)"
      and x: "findById i st = Some x" and same: "email x = normalizeEmail e"
  proof -
    from x have xin: "x \<in> set st" and xid: "sid x = i"
      using findById_Some by auto
    from uniq have inj: "inj_on email (set st)"
      by (simp add: distinct_map)
    have only: "\<forall>d \<in> set st. email d = normalizeEmail e \<longrightarrow> sid d = i"
    proof (intro ballI impI)
      fix d assume "d \<in> set st" and "email d = normalizeEmail e"
      with same xin inj have "d = x"
        unfolding inj_on_def by metis
      with xid show "sid d = i" by simp
    qed
    from assms valid x only show ?thesis
      by (rule put_students_id_valid)
  qed
  have other: "put_students_id now p (Some b) st =
      (Response 400 (Message ''Student with this email already exists''), st)"
    if "\<not> missing b" and "\<exists>d \<in> set st. sid d \<noteq> i \<and> email d = normalizeEmail e"
  proof -
    from that(2) obtain y where "findOne_email_ne e p st = Inr (Some y)"
      using findOne_email_ne_Some [OF assms(1)] by blast
    with that(1) assms(2) show ?thesis
      by (simp add: put_students_id_def)
  qed
  from own other show ?thesis
    by blast
qed

theorem update_excludes_self_witness:
  "email exampleStudent = normalizeEmail '' A@B.Co ''
   \<and> put_students_id 2 exampleId (Some (exampleBody\<lparr>body_name := Some ''Eve''\<rparr>)) [exampleStudent] =
     (Response 200 (Doc (exampleStudent\<lparr>name := ''Eve'', updatedAt := 2\<rparr>)),
      [exampleStudent\<lparr>name := ''Eve'', updatedAt := 2\<rparr>])
   \<and> put_students_id 2 otherId (Some (exampleBody\<lparr>body_name := Some ''Eve''\<rparr>)) [exampleStudent] =
     (Response 400 (Message ''Student with this email already exists''), [exampleStudent])"
proof -
  let ?b = "exampleBody\<lparr>body_name := Some ''Eve''\<rparr>"
  have e: "body_email ?b = Some '' A@B.Co ''"
    by (simp add: exampleBody_def)
  have own: "email exampleStudent = normalizeEmail '' A@B.Co ''"
    by (simp add: exampleStudent_def example_normalizeEmail)
  have uniq: "distinct (map email [exampleStudent])"
    by simp
  have complete: "\<not> missing ?b"
    using example_update_valid by (rule validate_not_missing)
  have other: "\<exists>d \<in> set [exampleStudent]. sid d \<noteq> otherId \<and> email d = normalizeEmail '' A@B.Co ''"
    using own example_ids by (simp add: exampleStudent_def)
  have fields: "setFields 2 (applySetters ?b) exampleStudent =
      exampleStudent\<lparr>name := ''Eve'', updatedAt := 2\<rparr>"
    by (simp add: setFields_def applySetters_def exampleBody_def exampleStudent_def
        example_trim example_normalizeEmail)
  from update_excludes_self [OF example_castObjectId(1) e, of "[exampleStudent]" exampleStudent 2]
    example_update_valid uniq example_findById own
  have "put_students_id 2 exampleId (Some ?b) [exampleStudent] =
      (Response 200 (Doc (setFields 2 (applySetters ?b) exampleStudent)),
       updateFirst (\<lambda>y. sid y = exampleId) (setFields 2 (applySetters ?b)) [exampleStudent])"
    by blast
  moreover have "updateFirst (\<lambda>y. sid y = exampleId) g [exampleStudent] = [g exampleStudent]" for g
    by (simp add: exampleStudent_def)
  ultimately have first: "put_students_id 2 exampleId (Some ?b) [exampleStudent] =
     (Response 200 (Doc (exampleStudent\<lparr>name := ''Eve'', updatedAt := 2\<rparr>)),
      [exampleStudent\<lparr>name := ''Eve'', updatedAt := 2\<rparr>])"
    by (simp only: fields)
  from update_excludes_self [OF example_castObjectId(2) e, of "[exampleStudent]" exampleStudent 2]
    complete other
  have "put_students_id 2 otherId (Some ?b) [exampleStudent] =
     (Response 400 (Message ''Student with this email already exists''), [exampleStudent])"
    by blast
  with own first show ?thesis
    by simp
qed

subsection \<open>C8: what a successful update changes\<close>

text \<open>
  C8. An update that answers 200 with a record has replaced the record of the given
  identifier, at its place in the collection, by the answered record, which differs
  from the old one exactly in the six user fields, now the trimmed (for the email:
  trimmed and lowercased) values of the body, and in the modification timestamp, now the
  clock reading; all other places of the collection are as they were, and the
  identifier finds the answered record afterwards. Every update, successful or not,
  leaves the identifier and the creation timestamp of every record unchanged.
\<close>

theorem update_frame:
  "(put_students_id now p req_body st = (Response 200 (Doc d'), st') \<longrightarrow>
      (\<exists>i k x n a c s e ph. castObjectId p = Some i
        \<and> k < length st \<and> st ! k = x \<and> sid x = i \<and> (\<forall>j<k. sid (st ! j) \<noteq> i)
        \<and> findById i st = Some x
        \<and> req_body = Some \<lparr>body_name = Some n, body_address = Some a, body_city = Some c,
                body_state = Some s, body_email = Some e, body_phone = Some ph\<rparr>
        \<and> d' = x\<lparr>name := trim n, address := trim a, city := trim c, state := trim s,
                 email := normalizeEmail e, phone := trim ph, updatedAt := now\<rparr>
        \<and> st' = st[k := d']
        \<and> findById i st' = Some d'))
   \<and> map sid (snd (put_students_id now p req_body st)) = map sid st
   \<and> map createdAt (snd (put_students_id now p req_body st)) = map createdAt st"
proof (intro conjI impI)
  assume ok: "put_students_id now p req_body st = (Response 200 (Doc d'), st')"
  then obtain b where rb: "req_body = Some b"
    by (cases req_body) (simp_all add: put_students_id_None)
  from ok rb have "fst (put_students_id now p (Some b) st) = Response 200 (Doc d')"
    by simp
  with put_students_id_cases [of now p b st] ok rb
  obtain i x where i: "castObjectId p = Some i" and valid: "validate (applySetters b) = None"
    and x: "findById i st = Some x"
    and d': "d' = setFields now (applySetters b) x"
    and st': "st' = updateFirst (\<lambda>y. sid y = i) (setFields now (applySetters b)) st"
    by auto
  from valid obtain n a c s e ph where b: "b = \<lparr>body_name = Some n, body_address = Some a,
      body_city = Some c, body_state = Some s, body_email = Some e, body_phone = Some ph\<rparr>"
    using validate_fields by blast
  have fields: "d' = x\<lparr>name := trim n, address := trim a, city := trim c, state := trim s,
      email := normalizeEmail e, phone := trim ph, updatedAt := now\<rparr>"
    by (simp add: d' b setFields_def applySetters_def)
  from x obtain k where k: "k < length st" and xk: "st ! k = x" and sx: "sid x = i"
    and first: "\<forall>j<k. sid (st ! j) \<noteq> i"
    unfolding findById_def find_Some_iff by blast
  from k xk sx first have "updateFirst (\<lambda>y. sid y = i) (setFields now (applySetters b)) st =
      st[k := setFields now (applySetters b) (st ! k)]"
    by (intro updateFirst_nth) simp_all
  then have upd: "st' = st[k := d']"
    by (simp add: st' d' xk)
  have "sid d' = i"
    by (simp add: d' setFields_sid sx)
  with k first have "\<exists>m<length st'. sid (st' ! m) = i \<and> d' = st' ! m \<and> (\<forall>j<m. sid (st' ! j) \<noteq> i)"
    unfolding upd by (intro exI [of _ k]) simp
  then have found: "findById i st' = Some d'"
    unfolding findById_def find_Some_iff .
  from i k xk sx first x rb b fields upd found
  show "\<exists>i k x n a c s e ph. castObjectId p = Some i
        \<and> k < length st \<and> st ! k = x \<and> sid x = i \<and> (\<forall>j<k. sid (st ! j) \<noteq> i)
        \<and> findById i st = Some x
        \<and> req_body = Some \<lparr>body_name = Some n, body_address = Some a, body_city = Some c,
                body_state = Some s, body_email = Some e, body_phone = Some ph\<rparr>
        \<and> d' = x\<lparr>name := trim n, address := trim a, city := trim c, state := trim s,
                 email := normalizeEmail e, phone := trim ph, updatedAt := now\<rparr>
        \<and> st' = st[k := d']
        \<and> findById i st' = Some d'"
    by blast
next
  show "map sid (snd (put_students_id now p req_body st)) = map sid st"
  proof (cases req_body)
    case None
    then show ?thesis by (simp add: put_students_id_None)
  next
    case (Some b)
    then show ?thesis
      using put_students_id_cases [of now p b st]
      by (auto simp: map_updateFirst setFields_sid)
  qed
next
  show "map createdAt (snd (put_students_id now p req_body st)) = map createdAt st"
  proof (cases req_body)
    case None
    then show ?thesis by (simp add: put_students_id_None)
  next
    case (Some b)
    then show ?thesis
      using put_students_id_cases [of now p b st]
      by (auto simp: map_updateFirst setFields_createdAt)
  qed
qed

text \<open>
  In a collection of two records, an update of the first one and an update of the
  second one: each replaces the record at its place and keeps the other.
\<close>

theorem update_frame_witness:
  "put_students_id 3 exampleId (Some (exampleBody\<lparr>body_name := Some ''Eve''\<rparr>))
       [exampleStudent, secondStudent] =
     (Response 200 (Doc (exampleStudent\<lparr>name := ''Eve'', updatedAt := 3\<rparr>)),
      [exampleStudent\<lparr>name := ''Eve'', updatedAt := 3\<rparr>, secondStudent])
   \<and> put_students_id 3 otherId (Some (secondBody\<lparr>body_name := Some ''Eve''\<rparr>))
       [exampleStudent, secondStudent] =
     (Response 200 (Doc (secondStudent\<lparr>name := ''Eve'', updatedAt := 3\<rparr>)),
      [exampleStudent, secondStudent\<lparr>name := ''Eve'', updatedAt := 3\<rparr>])
   \<and> (\<exists>k. k < length [exampleStudent, secondStudent]
        \<and> [exampleStudent\<lparr>name := ''Eve'', updatedAt := 3\<rparr>, secondStudent] =
            [exampleStudent, secondStudent][k := exampleStudent\<lparr>name := ''Eve'', updatedAt := 3\<rparr>])
   \<and> (\<exists>k. k < length [exampleStudent, secondStudent]
        \<and> [exampleStudent, secondStudent\<lparr>name := ''Eve'', updatedAt := 3\<rparr>] =
            [exampleStudent, secondStudent][k := secondStudent\<lparr>name := ''Eve'', updatedAt := 3\<rparr>])
   \<and> findById exampleId [exampleStudent\<lparr>name := ''Eve'', updatedAt := 3\<rparr>, secondStudent] =
        Some (exampleStudent\<lparr>name := ''Eve'', updatedAt := 3\<rparr>)
   \<and> findById otherId [exampleStudent, secondStudent\<lparr>name := ''Eve'', updatedAt := 3\<rparr>] =
        Some (secondStudent\<lparr>name := ''Eve'', updatedAt := 3\<rparr>)"
proof -
  let ?st = "[exampleStudent, secondStudent]"
  let ?A = "exampleStudent\<lparr>name := ''Eve'', updatedAt := 3\<rparr>"
  let ?B = "secondStudent\<lparr>name := ''Eve'', updatedAt := 3\<rparr>"
  have ids: "sid exampleStudent = exampleId" "sid secondStudent = otherId"
    by (simp_all add: exampleStudent_def secondStudent_def)
  have e1: "body_email (exampleBody\<lparr>body_name := Some ''Eve''\<rparr>) = Some '' A@B.Co ''"
    and e2: "body_email (secondBody\<lparr>body_name := Some ''Eve''\<rparr>) = Some ''c@d.co''"
    by (simp_all add: exampleBody_def secondBody_def)
  have v2: "validate (applySetters (secondBody\<lparr>body_name := Some ''Eve''\<rparr>)) = None"
    unfolding secondBody_def exampleBody_def
    by (simp add: validate_def failingPaths_def applySetters_def requiredOk_def emailOk_def
        example_trim example_normalizeEmail example_validator)
  have f1: "findById exampleId ?st = Some exampleStudent"
    and f2: "findById otherId ?st = Some secondStudent"
    using example_ids by (simp_all add: findById_def ids)
  have o1: "\<forall>d \<in> set ?st. email d = normalizeEmail '' A@B.Co '' \<longrightarrow> sid d = exampleId"
    and o2: "\<forall>d \<in> set ?st. email d = normalizeEmail ''c@d.co'' \<longrightarrow> sid d = otherId"
    by (simp_all add: exampleStudent_def secondStudent_def example_normalizeEmail)
  have s1: "setFields 3 (applySetters (exampleBody\<lparr>body_name := Some ''Eve''\<rparr>)) exampleStudent = ?A"
    and s2: "setFields 3 (applySetters (secondBody\<lparr>body_name := Some ''Eve''\<rparr>)) secondStudent = ?B"
    by (simp_all add: setFields_def applySetters_def exampleBody_def secondBody_def
        exampleStudent_def secondStudent_def example_trim example_normalizeEmail)
  have u1: "updateFirst (\<lambda>y. sid y = exampleId) g ?st = [g exampleStudent, secondStudent]"
    and u2: "updateFirst (\<lambda>y. sid y = otherId) g ?st = [exampleStudent, g secondStudent]" for g
    using example_ids by (simp_all add: ids)
  have h1: "put_students_id 3 exampleId (Some (exampleBody\<lparr>body_name := Some ''Eve''\<rparr>)) ?st =
      (Response 200 (Doc ?A), [?A, secondStudent])"
    using put_students_id_valid [OF example_castObjectId(1) e1 example_update_valid f1 o1, of 3]
    by (simp only: s1 u1)
  have h2: "put_students_id 3 otherId (Some (secondBody\<lparr>body_name := Some ''Eve''\<rparr>)) ?st =
      (Response 200 (Doc ?B), [exampleStudent, ?B])"
    using put_students_id_valid [OF example_castObjectId(2) e2 v2 f2 o2, of 3]
    by (simp only: s2 u2)
  from update_frame [where now = 3 and p = exampleId
      and req_body = "Some (exampleBody\<lparr>body_name := Some ''Eve''\<rparr>)" and st = ?st
      and d' = ?A and st' = "[?A, secondStudent]"] h1 example_castObjectId(1)
  have c1: "(\<exists>k. k < length ?st \<and> [?A, secondStudent] = ?st[k := ?A])
      \<and> findById exampleId [?A, secondStudent] = Some ?A"
    by auto
  from update_frame [where now = 3 and p = otherId
      and req_body = "Some (secondBody\<lparr>body_name := Some ''Eve''\<rparr>)" and st = ?st
      and d' = ?B and st' = "[exampleStudent, ?B]"] h2 example_castObjectId(2)
  have c2: "(\<exists>k. k < length ?st \<and> [exampleStudent, ?B] = ?st[k := ?B])
      \<and> findById otherId [exampleStudent, ?B] = Some ?B"
    by auto
  from h1 h2 c1 c2 show ?thesis
    by blast
qed

subsection \<open>C9: the list is newest first\<close>

text \<open>
  C9 as stated fails when the clock does not advance between the creations: the
  creation time is the wall clock in milliseconds and the sort has no second key. Three
  creates that read the same clock value give three records of equal creation time, and
  the list returns them as they are stored, [A, B, C].
\<close>

theorem list_equal_clock_counterexample:
  "post_students 1 exampleId (Some exampleBody) [] =
     (Response 201 (Doc exampleStudent), [exampleStudent])
   \<and> post_students 1 otherId (Some secondBody) [exampleStudent] =
     (Response 201 (Doc (secondStudent\<lparr>createdAt := 1, updatedAt := 1\<rparr>)),
      [exampleStudent, secondStudent\<lparr>createdAt := 1, updatedAt := 1\<rparr>])
   \<and> post_students 1 thirdId (Some (exampleBody\<lparr>body_email := Some ''e@f.co''\<rparr>))
       [exampleStudent, secondStudent\<lparr>createdAt := 1, updatedAt := 1\<rparr>] =
     (Response 201 (Doc (exampleStudent\<lparr>sid := thirdId, email := ''e@f.co''\<rparr>)),
      [exampleStudent, secondStudent\<lparr>createdAt := 1, updatedAt := 1\<rparr>,
       exampleStudent\<lparr>sid := thirdId, email := ''e@f.co''\<rparr>])
   \<and> get_students [exampleStudent, secondStudent\<lparr>createdAt := 1, updatedAt := 1\<rparr>,
       exampleStudent\<lparr>sid := thirdId, email := ''e@f.co''\<rparr>] =
     Response 200 (Docs [exampleStudent, secondStudent\<lparr>createdAt := 1, updatedAt := 1\<rparr>,
       exampleStudent\<lparr>sid := thirdId, email := ''e@f.co''\<rparr>])
   \<and> get_students [exampleStudent, secondStudent\<lparr>createdAt := 1, updatedAt := 1\<rparr>,
       exampleStudent\<lparr>sid := thirdId, email := ''e@f.co''\<rparr>] \<noteq>
     Response 200 (Docs [exampleStudent\<lparr>sid := thirdId, email := ''e@f.co''\<rparr>,
       secondStudent\<lparr>createdAt := 1, updatedAt := 1\<rparr>, exampleStudent])"
proof -
  let ?B = "secondStudent\<lparr>createdAt := 1, updatedAt := 1\<rparr>"
  let ?C = "exampleStudent\<lparr>sid := thirdId, email := ''e@f.co''\<rparr>"
  have h2: "post_students 1 otherId (Some secondBody) [exampleStudent] =
      (Response 201 (Doc ?B), [exampleStudent] @ [?B])"
    using example_ids
    by (intro post_students_valid [where n = "''Ada''" and a = "''1 Rd''" and c = "''Pisa''"
          and s = "''PI''" and e = "''c@d.co''" and ph = "''555''"])
      (simp_all add: secondBody_def exampleBody_def exampleStudent_def secondStudent_def
        example_trim example_normalizeEmail example_validator)
  have h3: "post_students 1 thirdId (Some (exampleBody\<lparr>body_email := Some ''e@f.co''\<rparr>))
      [exampleStudent, ?B] = (Response 201 (Doc ?C), [exampleStudent, ?B] @ [?C])"
    using example_ids
    by (intro post_students_valid [where n = "''Ada''" and a = "''1 Rd''" and c = "''Pisa''"
          and s = "''PI''" and e = "''e@f.co''" and ph = "''555''"])
      (simp_all add: exampleBody_def exampleStudent_def secondStudent_def example_trim
        example_normalizeEmail example_validator)
  have times: "createdAt exampleStudent = 1" "createdAt ?B = 1" "createdAt ?C = 1"
    by (simp_all add: exampleStudent_def)
  have list: "get_students [exampleStudent, ?B, ?C] = Response 200 (Docs [exampleStudent, ?B, ?C])"
    by (simp add: get_students_def find_sort_createdAt_desc_def times)
  have ne: "sid exampleStudent \<noteq> thirdId"
    using example_ids by (simp add: exampleStudent_def)
  have "exampleStudent \<noteq> ?C"
  proof
    assume "exampleStudent = ?C"
    then have "sid exampleStudent = sid ?C"
      by (rule arg_cong)
    with ne show False
      by simp
  qed
  with list have "get_students [exampleStudent, ?B, ?C] \<noteq> Response 200 (Docs [?C, ?B, exampleStudent])"
    by simp
  with example_post h2 h3 list show ?thesis
    by simp
qed

text \<open>
  C9, amended. The list operation returns HTTP 200 with all records of the collection,
  ordered by creation time descending; for the empty collection it returns the empty
  array. When A, then B, then C are created in the empty collection at clock readings
  that strictly increase from one creation to the next, it returns them in the order
  [C, B, A].
\<close>

theorem list_newest_first:
  "get_students [] = Response 200 (Docs [])
   \<and> (\<exists>xs. get_students st = Response 200 (Docs xs) \<and> mset xs = mset st
         \<and> sorted_wrt (\<lambda>x y. createdAt y \<le> createdAt x) xs)
   \<and> (post_students t1 i1 (Some b1) [] = (Response 201 (Doc A), s1)
       \<and> post_students t2 i2 (Some b2) s1 = (Response 201 (Doc B), s2)
       \<and> post_students t3 i3 (Some b3) s2 = (Response 201 (Doc C), s3)
       \<and> t1 < t2 \<and> t2 < t3
      \<longrightarrow> get_students s3 = Response 200 (Docs [C, B, A]))"
proof (intro conjI impI)
  show "get_students [] = Response 200 (Docs [])"
    by (simp add: get_students_def find_sort_createdAt_desc_def)
next
  have "sorted (map (\<lambda>d. - createdAt d) (find_sort_createdAt_desc st))"
    by (simp add: find_sort_createdAt_desc_def)
  then have "sorted_wrt (\<lambda>x y. createdAt y \<le> createdAt x) (find_sort_createdAt_desc st)"
    by (simp add: sorted_map)
  moreover have "mset (find_sort_createdAt_desc st) = mset st"
    by (simp add: find_sort_createdAt_desc_def)
  ultimately show "\<exists>xs. get_students st = Response 200 (Docs xs) \<and> mset xs = mset st
         \<and> sorted_wrt (\<lambda>x y. createdAt y \<le> createdAt x) xs"
    by (simp add: get_students_def)
next
  assume h: "post_students t1 i1 (Some b1) [] = (Response 201 (Doc A), s1)
       \<and> post_students t2 i2 (Some b2) s1 = (Response 201 (Doc B), s2)
       \<and> post_students t3 i3 (Some b3) s2 = (Response 201 (Doc C), s3)
       \<and> t1 < t2 \<and> t2 < t3"
  then have "s1 = [A]" "createdAt A = t1"
    using post_students_created [of t1 i1 b1 "[]" A s1] by simp_all
  moreover from h have "s2 = s1 @ [B]" "createdAt B = t2"
    using post_students_created [of t2 i2 b2 s1 B s2] by simp_all
  moreover from h have "s3 = s2 @ [C]" "createdAt C = t3"
    using post_students_created [of t3 i3 b3 s2 C s3] by simp_all
  ultimately have "s3 = [A, B, C]" and "createdAt A < createdAt B" and "createdAt B < createdAt C"
    using h by simp_all
  then show "get_students s3 = Response 200 (Docs [C, B, A])"
    by (simp add: get_students_def find_sort_createdAt_desc_def)
qed

theorem list_newest_first_witness:
  "post_students 1 exampleId (Some exampleBody) [] = (Response 201 (Doc exampleStudent), [exampleStudent])
   \<and> post_students 2 otherId (Some (exampleBody\<lparr>body_email := Some ''c@d.co''\<rparr>)) [exampleStudent] =
       (Response 201 (Doc (exampleStudent\<lparr>sid := otherId, email := ''c@d.co'',
          createdAt := 2, updatedAt := 2\<rparr>)),
        [exampleStudent,
         exampleStudent\<lparr>sid := otherId, email := ''c@d.co'', createdAt := 2, updatedAt := 2\<rparr>])
   \<and> get_students [exampleStudent,
         exampleStudent\<lparr>sid := otherId, email := ''c@d.co'', createdAt := 2, updatedAt := 2\<rparr>,
         exampleStudent\<lparr>sid := thirdId, email := ''e@f.co'', createdAt := 3, updatedAt := 3\<rparr>] =
       Response 200 (Docs
        [exampleStudent\<lparr>sid := thirdId, email := ''e@f.co'', createdAt := 3, updatedAt := 3\<rparr>,
         exampleStudent\<lparr>sid := otherId, email := ''c@d.co'', createdAt := 2, updatedAt := 2\<rparr>,
         exampleStudent])"
proof -
  let ?B = "exampleStudent\<lparr>sid := otherId, email := ''c@d.co'', createdAt := 2, updatedAt := 2\<rparr>"
  let ?C = "exampleStudent\<lparr>sid := thirdId, email := ''e@f.co'', createdAt := 3, updatedAt := 3\<rparr>"
  have ids: "exampleId \<noteq> otherId" "exampleId \<noteq> thirdId" "otherId \<noteq> thirdId"
    by (simp_all add: exampleId_def otherId_def thirdId_def)
  have h1: "post_students 1 exampleId (Some exampleBody) [] =
      (Response 201 (Doc exampleStudent), [exampleStudent])"
    by (rule example_post)
  have h2: "post_students 2 otherId (Some (exampleBody\<lparr>body_email := Some ''c@d.co''\<rparr>)) [exampleStudent] =
      (Response 201 (Doc ?B), [exampleStudent] @ [?B])"
    using ids
    by (intro post_students_valid [where n = "''Ada''" and a = "''1 Rd''" and c = "''Pisa''"
          and s = "''PI''" and e = "''c@d.co''" and ph = "''555''"])
      (simp_all add: exampleBody_def exampleStudent_def example_trim example_normalizeEmail
        example_validator)
  have h3: "post_students 3 thirdId (Some (exampleBody\<lparr>body_email := Some ''e@f.co''\<rparr>))
      ([exampleStudent] @ [?B]) = (Response 201 (Doc ?C), ([exampleStudent] @ [?B]) @ [?C])"
    using ids
    by (intro post_students_valid [where n = "''Ada''" and a = "''1 Rd''" and c = "''Pisa''"
          and s = "''PI''" and e = "''e@f.co''" and ph = "''555''"])
      (simp_all add: exampleBody_def exampleStudent_def example_trim example_normalizeEmail
        example_validator)
  have "(1::int) < 2 \<and> (2::int) < 3"
    by simp
  with h1 h2 h3 list_newest_first [of "[]" 1 exampleId exampleBody exampleStudent "[exampleStudent]"
      2 otherId "exampleBody\<lparr>body_email := Some ''c@d.co''\<rparr>" ?B "[exampleStudent] @ [?B]"
      3 thirdId "exampleBody\<lparr>body_email := Some ''e@f.co''\<rparr>" ?C "([exampleStudent] @ [?B]) @ [?C]"]
  have "get_students (([exampleStudent] @ [?B]) @ [?C]) = Response 200 (Docs [?C, ?B, exampleStudent])"
    by blast
  with h1 h2 show ?thesis
    by simp
qed

subsection \<open>C10: a field of whitespace only\<close>

text \<open>
  C10 as stated fails where an earlier check answers first: a request with a blank name
  whose email a record has gets the duplicate-email message, and one that also lacks
  another field gets "All fields are required".
\<close>

theorem blank_name_precedence_counterexample:
  "list_all isWhiteSpace ''   ''
   \<and> post_students 2 otherId (Some (exampleBody\<lparr>body_name := Some ''   ''\<rparr>)) [exampleStudent] =
       (Response 400 (Message ''Student with this email already exists''), [exampleStudent])
   \<and> post_students 1 exampleId (Some (exampleBody\<lparr>body_name := Some ''   '', body_phone := None\<rparr>)) [] =
       (Response 400 (Message ''All fields are required''), [])"
  by (simp add: post_students_def missing_def falsy_def findOne_email_def exampleBody_def
      exampleStudent_def example_normalizeEmail isWhiteSpace_def)

text \<open>
  C10, amended. For every create or update request whose six fields are present and
  non-empty, one of which consists only of whitespace: the required-fields check passes
  and, when no record has the normalized email (for update: no record other than the one
  addressed), the schema rejects the trimmed value at the write step, so that create
  returns HTTP 400 with the message "Error creating student" and a validation error as
  detail, and update returns HTTP 400 with the message "Error updating student" and an
  error detail; the collection stays as it was.
\<close>

theorem blank_field_rejected_by_schema:
  assumes "\<not> missing b" and "body_email b = Some e"
    and "f \<in> set [body_name, body_address, body_city, body_state, body_email, body_phone]"
    and "f b = Some w" and "list_all isWhiteSpace w"
  shows "((\<forall>d \<in> set st. email d \<noteq> normalizeEmail e) \<longrightarrow>
           (\<exists>paths. post_students now i (Some b) st =
              (Response 400 (MessageError ''Error creating student'' (ValidationError paths)), st)))
       \<and> ((\<forall>d \<in> set st. email d = normalizeEmail e \<longrightarrow> castObjectId p = Some (sid d)) \<longrightarrow>
           (\<exists>err. put_students_id now p (Some b) st =
              (Response 400 (MessageError ''Error updating student'' err), st)))"
proof -
  obtain ps where invalid: "validate (applySetters b) = Some (ValidationError ps)"
    using blank_fails_validation [OF assms(3,4,5)] by blast
  have post: "\<exists>paths. post_students now i (Some b) st =
      (Response 400 (MessageError ''Error creating student'' (ValidationError paths)), st)"
    if "\<forall>d \<in> set st. email d \<noteq> normalizeEmail e"
  proof -
    from that have "findOne_email e st = None"
      by (simp add: findOne_email_None)
    moreover have "save now i b st = Inl (ValidationError ps)"
      using invalid by (simp add: save_def)
    ultimately show ?thesis
      using assms(1,2) by (simp add: post_students_def)
  qed
  have put: "\<exists>err. put_students_id now p (Some b) st =
      (Response 400 (MessageError ''Error updating student'' err), st)"
    if own: "\<forall>d \<in> set st. email d = normalizeEmail e \<longrightarrow> castObjectId p = Some (sid d)"
  proof (cases "castObjectId p")
    case None
    then have "findOne_email_ne e p st = Inl (CastError p)"
      by (simp add: findOne_email_ne_def)
    with assms(1,2) show ?thesis
      by (simp add: put_students_id_def)
  next
    case (Some j)
    with own have "\<forall>d \<in> set st. email d = normalizeEmail e \<longrightarrow> sid d = j"
      by auto
    with Some have "findOne_email_ne e p st = Inr None"
      by (rule findOne_email_ne_None)
    moreover have "findByIdAndUpdate now p b st = Inl (ValidationError ps)"
      using Some invalid by (simp add: findByIdAndUpdate_def)
    ultimately show ?thesis
      using assms(1,2) by (simp add: put_students_id_def)
  qed
  from post put show ?thesis
    by blast
qed

theorem blank_field_rejected_by_schema_witness:
  "list_all isWhiteSpace ''   ''
   \<and> (\<exists>paths. post_students 1 exampleId (Some (exampleBody\<lparr>body_name := Some ''   ''\<rparr>)) [] =
        (Response 400 (MessageError ''Error creating student'' (ValidationError paths)), []))
   \<and> (\<exists>err. put_students_id 2 exampleId (Some (exampleBody\<lparr>body_name := Some ''   ''\<rparr>)) [exampleStudent] =
        (Response 400 (MessageError ''Error updating student'' err), [exampleStudent]))"
proof -
  let ?b = "exampleBody\<lparr>body_name := Some ''   ''\<rparr>"
  have h1: "\<not> missing ?b"
    by (simp add: missing_def falsy_def exampleBody_def)
  have h2: "body_email ?b = Some '' A@B.Co ''"
    by (simp add: exampleBody_def)
  have h3: "body_name \<in> set [body_name, body_address, body_city, body_state, body_email, body_phone]"
    by simp
  have h4: "body_name ?b = Some ''   ''"
    by simp
  have h5: "list_all isWhiteSpace ''   ''"
    by (simp add: isWhiteSpace_def)
  have h6: "\<forall>d \<in> set ([] :: store). email d \<noteq> normalizeEmail '' A@B.Co ''"
    by simp
  have h7: "\<forall>d \<in> set [exampleStudent]. email d = normalizeEmail '' A@B.Co '' \<longrightarrow>
      castObjectId exampleId = Some (sid d)"
    using example_castObjectId(1) by (simp add: exampleStudent_def)
  from blank_field_rejected_by_schema [OF h1 h2 h3 h4 h5,
      where st = "[]" and now = 1 and i = exampleId] h6
  have post: "\<exists>paths. post_students 1 exampleId (Some ?b) [] =
      (Response 400 (MessageError ''Error creating student'' (ValidationError paths)), [])"
    by blast
  from blank_field_rejected_by_schema [OF h1 h2 h3 h4 h5,
      where st = "[exampleStudent]" and p = exampleId and now = 2] h7
  have "\<exists>err. put_students_id 2 exampleId (Some ?b) [exampleStudent] =
      (Response 400 (MessageError ''Error updating student'' err), [exampleStudent])"
    by blast
  with h5 post show ?thesis
    by blast
qed

end
